theory Spec2Isabelle
  imports Main "HOL-Library.Word"
begin

section \<open>Strings and paths\<close>

text \<open>
  A JavaScript string is a sequence of UTF-16 code units; it is modelled as the list of
  these code units, each a natural number; \<open>js\<close> writes an ASCII literal.
  A byte of a file is an 8-bit word.
\<close>

type_synonym jsstring = "nat list"

type_synonym byte = "8 word"

definition js :: "string \<Rightarrow> jsstring" where
  "js s = map of_char s"

text \<open>\<open>String.prototype.startsWith\<close> and \<open>endsWith\<close>.\<close>

definition startsWith :: "jsstring \<Rightarrow> jsstring \<Rightarrow> bool" where
  "startsWith s p \<longleftrightarrow> take (length p) s = p"

definition endsWith :: "jsstring \<Rightarrow> jsstring \<Rightarrow> bool" where
  "endsWith s p \<longleftrightarrow> length p \<le> length s \<and> drop (length s - length p) s = p"

text \<open>
  \<open>String.prototype.indexOf\<close>: the position of the first occurrence of \<open>p\<close> in \<open>s\<close>
  at or after position \<open>i\<close>, or \<open>-1\<close>.
\<close>

fun indexOf_from :: "nat \<Rightarrow> jsstring \<Rightarrow> jsstring \<Rightarrow> int" where
  "indexOf_from i [] p = (if p = [] then int i else -1)"
| "indexOf_from i (c # cs) p =
    (if startsWith (c # cs) p then int i else indexOf_from (Suc i) cs p)"

definition indexOf :: "jsstring \<Rightarrow> jsstring \<Rightarrow> int" where
  "indexOf s p = indexOf_from 0 s p"

text \<open>
  \<open>String.prototype.substring(a, b)\<close>: both indices are clamped to the string and
  swapped when \<open>a > b\<close>.
\<close>

definition substring :: "jsstring \<Rightarrow> int \<Rightarrow> int \<Rightarrow> jsstring" where
  "substring s a b =
    (let n = int (length s);
         a' = max 0 (min a n);
         b' = max 0 (min b n);
         lo = nat (min a' b');
         hi = nat (max a' b')
     in take (hi - lo) (drop lo s))"

text \<open>\<open>String.prototype.trim\<close> removes white space and line terminators at both ends.\<close>

definition js_white_space :: "nat \<Rightarrow> bool" where
  "js_white_space c \<longleftrightarrow>
     c = 9 \<or> c = 10 \<or> c = 11 \<or> c = 12 \<or> c = 13 \<or> c = 32 \<or> c = 160 \<or> c = 5760 \<or>
     (8192 \<le> c \<and> c \<le> 8202) \<or> c = 8232 \<or> c = 8233 \<or> c = 8239 \<or> c = 8287 \<or>
     c = 12288 \<or> c = 65279"

definition trim :: "jsstring \<Rightarrow> jsstring" where
  "trim s = rev (dropWhile js_white_space (rev (dropWhile js_white_space s)))"

text \<open>Splitting a string at every occurrence of one code unit.\<close>

primrec split_at :: "nat \<Rightarrow> jsstring \<Rightarrow> jsstring list" where
  "split_at d [] = [[]]"
| "split_at d (c # cs) =
    (if c = d then [] # split_at d cs
     else (case split_at d cs of [] \<Rightarrow> [[c]] | x # xs \<Rightarrow> (c # x) # xs))"

fun join_with :: "jsstring \<Rightarrow> jsstring list \<Rightarrow> jsstring" where
  "join_with sep [] = []"
| "join_with sep [x] = x"
| "join_with sep (x # y # ys) = x @ sep @ join_with sep (y # ys)"

text \<open>
  The module \<open>path\<close> (POSIX) works on the text of a path alone.
  \<open>normalize_segments\<close> is its \<open>normalizeString\<close> on the segments between the
  separators: empty segments and \<open>.\<close> are dropped, \<open>..\<close> removes the segment before
  it and is kept at the start of a relative path.
\<close>

fun normalize_segments :: "bool \<Rightarrow> jsstring list \<Rightarrow> jsstring list \<Rightarrow> jsstring list" where
  "normalize_segments allowAboveRoot acc [] = rev acc"
| "normalize_segments allowAboveRoot acc (s # ss) =
    (if s = [] \<or> s = js ''.'' then normalize_segments allowAboveRoot acc ss
     else if s = js ''..'' then
       (if acc \<noteq> [] \<and> hd acc \<noteq> js ''..'' then normalize_segments allowAboveRoot (tl acc) ss
        else if allowAboveRoot then normalize_segments allowAboveRoot (s # acc) ss
        else normalize_segments allowAboveRoot acc ss)
     else normalize_segments allowAboveRoot (s # acc) ss)"

definition path_normalize :: "jsstring \<Rightarrow> jsstring" where
  "path_normalize p =
    (if p = [] then js ''.''
     else
      (let isAbsolute = (hd p = 47);
           trailingSeparator = (last p = 47);
           body = join_with (js ''/'') (normalize_segments (\<not> isAbsolute) [] (split_at 47 p))
       in if body = [] then
            (if isAbsolute then js ''/'' else if trailingSeparator then js ''./'' else js ''.'')
          else (if isAbsolute then js ''/'' else []) @ body @
               (if trailingSeparator then js ''/'' else [])))"

text \<open>\<open>path.join(...args)\<close>: the non-empty arguments, joined and normalised.\<close>

definition path_join :: "jsstring list \<Rightarrow> jsstring" where
  "path_join args =
    (let joined = join_with (js ''/'') (filter (\<lambda>arg. arg \<noteq> []) args)
     in if joined = [] then js ''.'' else path_normalize joined)"

text \<open>
  \<open>path.dirname\<close>: the text before the last separator that stands after the first
  character and before the last segment; trailing separators do not count.
\<close>

definition dirname :: "jsstring \<Rightarrow> jsstring" where
  "dirname p =
    (if p = [] then js ''.''
     else
      (let hasRoot = (hd p = 47);
           stem = rev (dropWhile (\<lambda>c. c = 47) (rev (tl p)))
       in if 47 \<notin> set stem then (if hasRoot then js ''/'' else js ''.'')
          else
           (let before = rev (tl (dropWhile (\<lambda>c. c \<noteq> 47) (rev stem)))
            in if hasRoot \<and> before = [] then js ''//'' else hd p # before)))"

text \<open>\<open>path.basename\<close> of a path string: its last non-empty segment.\<close>

definition basename :: "jsstring \<Rightarrow> jsstring" where
  "basename p = (case filter (\<lambda>s. s \<noteq> []) (split_at 47 p) of [] \<Rightarrow> [] | xs \<Rightarrow> last xs)"

text \<open>
  \<open>path.relative(basePath, path.join(folderPath, item))\<close> inside the walk, where
  \<open>rel\<close> is the path of \<open>folderPath\<close> relative to \<open>basePath\<close> (empty for the base itself).
\<close>

definition relative_item :: "jsstring \<Rightarrow> jsstring \<Rightarrow> jsstring" where
  "relative_item rel item = (if rel = [] then item else rel @ js ''/'' @ item)"

text \<open>Decimal digits of a number, as \<open>String(n)\<close> prints a non-negative integer.\<close>

function digits :: "nat \<Rightarrow> jsstring" where
  "digits n = (if n < 10 then [48 + n] else digits (n div 10) @ [48 + n mod 10])"
  by pat_completeness auto
termination
  by (relation "measure (\<lambda>n. n)") auto

declare digits.simps [simp del]

definition show_nat :: "nat \<Rightarrow> jsstring" where
  "show_nat n = digits n"

section \<open>The file system\<close>

text \<open>
  A directory lists its children in the order \<open>readdirSync\<close> returns them. Permissions,
  links and concurrent changes are not modelled: an operation fails only for the reasons
  written out below. The root of the tree is also the working directory, so absolute and
  relative path strings are resolved in the same tree, and \<open>..\<close> at the root stays at
  the root.
\<close>

datatype node = File "byte list" | Dir "(jsstring \<times> node) list"

datatype errno = ENOENT | ENOTDIR | EISDIR | EEXIST

text \<open>Everything the code can throw or catch.\<close>

datatype exn =
    SystemError errno
  | TypeError
  | SyntaxError
  | SourceFolderDoesNotExist jsstring
  | SourcePathIsNotADirectory jsstring
  | SnapFileDoesNotExist jsstring
  | InvalidSnapFileFormat
  | SnapDirectoryNotFound jsstring
  | MetadataFileNotFound jsstring
  | LegacyMissingMarkers
  | LegacyNoJsonData
  | LegacyParseFailed
  | LegacyInvalidStructure
  | FolderDoesNotExist jsstring
  | InvalidSnapFileStructure

text \<open>
  \<open>try { body } catch (error) { handler }\<close> for a body that has thrown (\<open>Inl\<close>) or
  returned (\<open>Inr\<close>); the handler may throw as well.
\<close>

definition catch :: "exn + 'a \<Rightarrow> (exn \<Rightarrow> exn + 'a) \<Rightarrow> exn + 'a" where
  "catch body handler = (case body of Inl e \<Rightarrow> handler e | Inr v \<Rightarrow> Inr v)"

text \<open>A location is the list of the names from the root to an entry.\<close>

type_synonym location = "jsstring list"

fun lookup :: "location \<Rightarrow> node \<Rightarrow> node option" where
  "lookup [] n = Some n"
| "lookup (s # ss) (File b) = None"
| "lookup (s # ss) (Dir cs) = (case map_of cs s of None \<Rightarrow> None | Some c \<Rightarrow> lookup ss c)"

text \<open>
  The system resolves a path string segment by segment, and every segment, \<open>..\<close>
  included, is looked up in a directory that exists: \<open>missing/../proj\<close> does not
  resolve, where \<open>path.normalize\<close> gives \<open>proj\<close>. The entry that the last segment
  names need not exist, unless a separator follows it.
\<close>

fun walk_path :: "node \<Rightarrow> location \<Rightarrow> jsstring list \<Rightarrow> errno + location" where
  "walk_path fs cur [] = Inr cur"
| "walk_path fs cur (s # ss) =
    (if s = [] then walk_path fs cur ss
     else
      (case lookup cur fs of
         None \<Rightarrow> Inl ENOENT
       | Some (File b) \<Rightarrow> Inl ENOTDIR
       | Some (Dir cs) \<Rightarrow>
           (if s = js ''.'' then walk_path fs cur ss
            else if s = js ''..'' then walk_path fs (butlast cur) ss
            else walk_path fs (cur @ [s]) ss)))"

definition resolve :: "node \<Rightarrow> jsstring \<Rightarrow> errno + location" where
  "resolve fs p =
    (if p = [] then Inl ENOENT
     else
      (case walk_path fs [] (split_at 47 p) of
         Inl e \<Rightarrow> Inl e
       | Inr l \<Rightarrow>
          (if last p = 47 then
             (case lookup l fs of
                None \<Rightarrow> Inl ENOENT
              | Some (File b) \<Rightarrow> Inl ENOTDIR
              | Some (Dir cs) \<Rightarrow> Inr l)
           else Inr l)))"

definition statSync :: "node \<Rightarrow> jsstring \<Rightarrow> errno + node" where
  "statSync fs p =
    (case resolve fs p of
       Inl e \<Rightarrow> Inl e
     | Inr l \<Rightarrow> (case lookup l fs of None \<Rightarrow> Inl ENOENT | Some n \<Rightarrow> Inr n))"

definition existsSync :: "node \<Rightarrow> jsstring \<Rightarrow> bool" where
  "existsSync fs p = (case statSync fs p of Inl e \<Rightarrow> False | Inr n \<Rightarrow> True)"

text \<open>\<open>fs.statSync(p).isDirectory()\<close>.\<close>

definition isDirectory :: "node \<Rightarrow> jsstring \<Rightarrow> exn + bool" where
  "isDirectory fs p =
    (case statSync fs p of
       Inl e \<Rightarrow> Inl (SystemError e)
     | Inr (File b) \<Rightarrow> Inr False
     | Inr (Dir cs) \<Rightarrow> Inr True)"

definition readdirSync :: "node \<Rightarrow> jsstring \<Rightarrow> exn + (jsstring \<times> node) list" where
  "readdirSync fs p =
    (case statSync fs p of
       Inl e \<Rightarrow> Inl (SystemError e)
     | Inr (File b) \<Rightarrow> Inl (SystemError ENOTDIR)
     | Inr (Dir cs) \<Rightarrow> Inr cs)"

definition readFileSync :: "node \<Rightarrow> jsstring \<Rightarrow> exn + byte list" where
  "readFileSync fs p =
    (case statSync fs p of
       Inl e \<Rightarrow> Inl (SystemError e)
     | Inr (File b) \<Rightarrow> Inr b
     | Inr (Dir cs) \<Rightarrow> Inl (SystemError EISDIR))"

text \<open>A child is replaced where it stands; a new child is listed last.\<close>

fun put_child :: "jsstring \<Rightarrow> node \<Rightarrow> (jsstring \<times> node) list \<Rightarrow> (jsstring \<times> node) list" where
  "put_child k v [] = [(k, v)]"
| "put_child k v ((k', v') # cs) = (if k' = k then (k, v) # cs else (k', v') # put_child k v cs)"

text \<open>Writing a file at a location, and \<open>fs.writeFileSync(p, d)\<close>.\<close>

fun write_at :: "location \<Rightarrow> byte list \<Rightarrow> node \<Rightarrow> exn + node" where
  "write_at [] d n = Inl (SystemError EISDIR)"
| "write_at (s # ss) d (File b) = Inl (SystemError ENOTDIR)"
| "write_at (s # ss) d (Dir cs) =
    (if ss = [] then
       (case map_of cs s of
          Some (Dir sub) \<Rightarrow> Inl (SystemError EISDIR)
        | _ \<Rightarrow> Inr (Dir (put_child s (File d) cs)))
     else
       (case map_of cs s of
          None \<Rightarrow> Inl (SystemError ENOENT)
        | Some c \<Rightarrow>
           (case write_at ss d c of
              Inl e \<Rightarrow> Inl e
            | Inr c' \<Rightarrow> Inr (Dir (put_child s c' cs)))))"

definition writeFileSync :: "jsstring \<Rightarrow> byte list \<Rightarrow> node \<Rightarrow> exn + node" where
  "writeFileSync p d fs =
    (case resolve fs p of Inl e \<Rightarrow> Inl (SystemError e) | Inr l \<Rightarrow> write_at l d fs)"

text \<open>
  Making the directory at a location, and \<open>fs.mkdirSync(p, { recursive: true })\<close>, which
  makes the missing directories as it goes along the path; those it made stay when a
  later segment fails.
\<close>

fun mkdir_at :: "location \<Rightarrow> node \<Rightarrow> exn + node" where
  "mkdir_at [] (Dir cs) = Inr (Dir cs)"
| "mkdir_at [] (File b) = Inl (SystemError EEXIST)"
| "mkdir_at (s # ss) (File b) = Inl (SystemError ENOTDIR)"
| "mkdir_at (s # ss) (Dir cs) =
    (case mkdir_at ss (case map_of cs s of None \<Rightarrow> Dir [] | Some c \<Rightarrow> c) of
       Inl e \<Rightarrow> Inl e
     | Inr c' \<Rightarrow> Inr (Dir (put_child s c' cs)))"

fun mkdir_walk :: "location \<Rightarrow> jsstring list \<Rightarrow> node \<Rightarrow> (exn + unit) \<times> node" where
  "mkdir_walk cur [] fs = (Inr (), fs)"
| "mkdir_walk cur (s # ss) fs =
    (if s = [] then mkdir_walk cur ss fs
     else
      (case lookup cur fs of
         None \<Rightarrow> (Inl (SystemError ENOENT), fs)
       | Some (File b) \<Rightarrow> (Inl (SystemError ENOTDIR), fs)
       | Some (Dir cs) \<Rightarrow>
           (if s = js ''.'' then mkdir_walk cur ss fs
            else if s = js ''..'' then mkdir_walk (butlast cur) ss fs
            else
             (case lookup (cur @ [s]) fs of
                Some (Dir sub) \<Rightarrow> mkdir_walk (cur @ [s]) ss fs
              | Some (File b) \<Rightarrow>
                  (Inl (SystemError (if list_all (\<lambda>t. t = []) ss then EEXIST else ENOTDIR)), fs)
              | None \<Rightarrow>
                  (case mkdir_at (cur @ [s]) fs of
                     Inl e \<Rightarrow> (Inl e, fs)
                   | Inr fs' \<Rightarrow> mkdir_walk (cur @ [s]) ss fs')))))"

definition mkdirSync :: "jsstring \<Rightarrow> node \<Rightarrow> (exn + unit) \<times> node" where
  "mkdirSync p fs =
    (if p = [] then (Inl (SystemError ENOENT), fs) else mkdir_walk [] (split_at 47 p) fs)"

text \<open>\<open>fs.rmSync(p, { recursive: true, force: true })\<close>.\<close>

fun rm_at :: "location \<Rightarrow> node \<Rightarrow> node" where
  "rm_at [] n = n"
| "rm_at (s # ss) (File b) = File b"
| "rm_at (s # ss) (Dir cs) =
    (if ss = [] then Dir (filter (\<lambda>kv. fst kv \<noteq> s) cs)
     else (case map_of cs s of
             None \<Rightarrow> Dir cs
           | Some c \<Rightarrow> Dir (put_child s (rm_at ss c) cs)))"

definition rmSync :: "jsstring \<Rightarrow> node \<Rightarrow> node" where
  "rmSync p fs = (case resolve fs p of Inl e \<Rightarrow> fs | Inr l \<Rightarrow> rm_at l fs)"

section \<open>JSON\<close>

text \<open>
  The values \<open>JSON.parse\<close> returns. A number keeps its lexeme: the code only copies
  numbers, apart from a test for zero. An object lists its members in source order.
\<close>

datatype json =
    JNull
  | JBool bool
  | JNum jsstring
  | JStr jsstring
  | JArr "json list"
  | JObj "(jsstring \<times> json) list"

definition json_ws :: "nat \<Rightarrow> bool" where
  "json_ws c \<longleftrightarrow> c = 32 \<or> c = 9 \<or> c = 10 \<or> c = 13"

definition skip_ws :: "jsstring \<Rightarrow> jsstring" where
  "skip_ws s = dropWhile json_ws s"

definition is_digit :: "nat \<Rightarrow> bool" where
  "is_digit c \<longleftrightarrow> 48 \<le> c \<and> c \<le> 57"

definition hex_val :: "nat \<Rightarrow> nat option" where
  "hex_val c =
    (if 48 \<le> c \<and> c \<le> 57 then Some (c - 48)
     else if 97 \<le> c \<and> c \<le> 102 then Some (c - 87)
     else if 65 \<le> c \<and> c \<le> 70 then Some (c - 55)
     else None)"

definition hex4 :: "nat \<Rightarrow> nat \<Rightarrow> nat \<Rightarrow> nat \<Rightarrow> nat option" where
  "hex4 a b c d =
    (case (hex_val a, hex_val b, hex_val c, hex_val d) of
       (Some w, Some x, Some y, Some z) \<Rightarrow> Some (((w * 16 + x) * 16 + y) * 16 + z)
     | _ \<Rightarrow> None)"

definition unescape :: "nat \<Rightarrow> nat option" where
  "unescape e =
    (if e = 34 then Some 34 else if e = 92 then Some 92 else if e = 47 then Some 47
     else if e = 98 then Some 8 else if e = 102 then Some 12 else if e = 110 then Some 10
     else if e = 114 then Some 13 else if e = 116 then Some 9 else None)"

text \<open>The characters of a string literal after its opening quote, and the rest of the input.\<close>

fun parse_chars :: "jsstring \<Rightarrow> (jsstring \<times> jsstring) option" where
  "parse_chars [] = None"
| "parse_chars (c # cs) =
    (if c = 34 then Some ([], cs)
     else if c < 32 then None
     else if c = 92 then
       (case cs of
          [] \<Rightarrow> None
        | e # r \<Rightarrow>
           (if e = 117 then
              (case r of
                 h1 # h2 # h3 # h4 # r' \<Rightarrow>
                   (case hex4 h1 h2 h3 h4 of
                      None \<Rightarrow> None
                    | Some u \<Rightarrow>
                       (case parse_chars r' of None \<Rightarrow> None | Some (s, t) \<Rightarrow> Some (u # s, t)))
               | _ \<Rightarrow> None)
            else
              (case unescape e of
                 None \<Rightarrow> None
               | Some u \<Rightarrow>
                  (case parse_chars r of None \<Rightarrow> None | Some (s, t) \<Rightarrow> Some (u # s, t)))))
     else (case parse_chars cs of None \<Rightarrow> None | Some (s, t) \<Rightarrow> Some (c # s, t)))"

text \<open>A number lexeme \<open>-?(0|[1-9][0-9]*)(.[0-9]+)?([eE][+-]?[0-9]+)?\<close> and the rest.\<close>

definition parse_int_part :: "jsstring \<Rightarrow> (jsstring \<times> jsstring) option" where
  "parse_int_part s =
    (case s of
       [] \<Rightarrow> None
     | d # r \<Rightarrow>
        (if d = 48 then Some ([48], r)
         else if 49 \<le> d \<and> d \<le> 57 then Some (d # takeWhile is_digit r, dropWhile is_digit r)
         else None))"

definition parse_frac_part :: "jsstring \<Rightarrow> (jsstring \<times> jsstring) option" where
  "parse_frac_part s =
    (case s of
       c # r \<Rightarrow>
        (if c = 46 then
           (if takeWhile is_digit r = [] then None
            else Some (46 # takeWhile is_digit r, dropWhile is_digit r))
         else Some ([], s))
     | [] \<Rightarrow> Some ([], s))"

definition parse_exp_part :: "jsstring \<Rightarrow> (jsstring \<times> jsstring) option" where
  "parse_exp_part s =
    (case s of
       c # r \<Rightarrow>
        (if c = 101 \<or> c = 69 then
           (let sgn = (case r of x # r' \<Rightarrow> if x = 43 \<or> x = 45 then [x] else [] | [] \<Rightarrow> []);
                r1 = drop (length sgn) r
            in if takeWhile is_digit r1 = [] then None
               else Some (c # sgn @ takeWhile is_digit r1, dropWhile is_digit r1))
         else Some ([], s))
     | [] \<Rightarrow> Some ([], s))"

definition parse_number :: "jsstring \<Rightarrow> (jsstring \<times> jsstring) option" where
  "parse_number s =
    (let sgn = (case s of c # r \<Rightarrow> if c = 45 then [45] else [] | [] \<Rightarrow> []);
         s0 = drop (length sgn) s
     in case parse_int_part s0 of
          None \<Rightarrow> None
        | Some (i, s1) \<Rightarrow>
           (case parse_frac_part s1 of
              None \<Rightarrow> None
            | Some (f, s2) \<Rightarrow>
               (case parse_exp_part s2 of
                  None \<Rightarrow> None
                | Some (e, s3) \<Rightarrow> Some (sgn @ i @ f @ e, s3))))"

text \<open>
  The recursive descent over values, array elements and object members. The fuel bounds
  the number of nested calls; \<open>JSON_parse\<close> gives two units for every character.
\<close>

fun parse_value :: "nat \<Rightarrow> jsstring \<Rightarrow> (json \<times> jsstring) option"
  and parse_elements :: "nat \<Rightarrow> jsstring \<Rightarrow> (json list \<times> jsstring) option"
  and parse_members :: "nat \<Rightarrow> jsstring \<Rightarrow> ((jsstring \<times> json) list \<times> jsstring) option"
where
  "parse_value 0 s = None"
| "parse_value (Suc n) s =
    (case skip_ws s of
       [] \<Rightarrow> None
     | c # cs \<Rightarrow>
        (if c = 123 then
           (case skip_ws cs of
              [] \<Rightarrow> None
            | d # r \<Rightarrow>
               (if d = 125 then Some (JObj [], r)
                else (case parse_members n cs of
                        None \<Rightarrow> None
                      | Some (ms, t) \<Rightarrow> Some (JObj ms, t))))
         else if c = 91 then
           (case skip_ws cs of
              [] \<Rightarrow> None
            | d # r \<Rightarrow>
               (if d = 93 then Some (JArr [], r)
                else (case parse_elements n cs of
                        None \<Rightarrow> None
                      | Some (vs, t) \<Rightarrow> Some (JArr vs, t))))
         else if c = 34 then
           (case parse_chars cs of None \<Rightarrow> None | Some (str, t) \<Rightarrow> Some (JStr str, t))
         else if startsWith (c # cs) (js ''true'') then Some (JBool True, drop 4 (c # cs))
         else if startsWith (c # cs) (js ''false'') then Some (JBool False, drop 5 (c # cs))
         else if startsWith (c # cs) (js ''null'') then Some (JNull, drop 4 (c # cs))
         else (case parse_number (c # cs) of
                 None \<Rightarrow> None
               | Some (lexeme, t) \<Rightarrow> Some (JNum lexeme, t))))"
| "parse_elements 0 s = None"
| "parse_elements (Suc n) s =
    (case parse_value n s of
       None \<Rightarrow> None
     | Some (v, r) \<Rightarrow>
        (case skip_ws r of
           [] \<Rightarrow> None
         | d # r' \<Rightarrow>
            (if d = 44 then
               (case parse_elements n r' of
                  None \<Rightarrow> None
                | Some (vs, t) \<Rightarrow> Some (v # vs, t))
             else if d = 93 then Some ([v], r')
             else None)))"
| "parse_members 0 s = None"
| "parse_members (Suc n) s =
    (case skip_ws s of
       [] \<Rightarrow> None
     | q # r \<Rightarrow>
        (if q \<noteq> 34 then None
         else (case parse_chars r of
                 None \<Rightarrow> None
               | Some (k, r1) \<Rightarrow>
                  (case skip_ws r1 of
                     [] \<Rightarrow> None
                   | colon # r2 \<Rightarrow>
                      (if colon \<noteq> 58 then None
                       else (case parse_value n r2 of
                               None \<Rightarrow> None
                             | Some (v, r3) \<Rightarrow>
                                (case skip_ws r3 of
                                   [] \<Rightarrow> None
                                 | d # r4 \<Rightarrow>
                                    (if d = 44 then
                                       (case parse_members n r4 of
                                          None \<Rightarrow> None
                                        | Some (ms, t) \<Rightarrow> Some ((k, v) # ms, t))
                                     else if d = 125 then Some ([(k, v)], r4)
                                     else None))))))))"

text \<open>\<open>JSON.parse\<close>: \<open>None\<close> stands for the \<open>SyntaxError\<close> it throws.\<close>

definition JSON_parse :: "jsstring \<Rightarrow> json option" where
  "JSON_parse s =
    (case parse_value (2 * length s + 2) s of
       None \<Rightarrow> None
     | Some (v, r) \<Rightarrow> if skip_ws r = [] then Some v else None)"

text \<open>\<open>JSON.stringify(v, null, 2)\<close>.\<close>

definition hex_digit :: "nat \<Rightarrow> nat" where
  "hex_digit n = (if n < 10 then 48 + n else 87 + n)"

definition escape_unit :: "nat \<Rightarrow> jsstring" where
  "escape_unit c =
    [92, 117] @ [hex_digit (c div 4096 mod 16), hex_digit (c div 256 mod 16),
                  hex_digit (c div 16 mod 16), hex_digit (c mod 16)]"

definition is_high_surrogate :: "nat \<Rightarrow> bool" where
  "is_high_surrogate u \<longleftrightarrow> 55296 \<le> u \<and> u \<le> 56319"

definition is_low_surrogate :: "nat \<Rightarrow> bool" where
  "is_low_surrogate u \<longleftrightarrow> 56320 \<le> u \<and> u \<le> 57343"

fun quote_chars :: "jsstring \<Rightarrow> jsstring" where
  "quote_chars [] = []"
| "quote_chars (c # cs) =
    (if c = 34 then [92, 34] @ quote_chars cs
     else if c = 92 then [92, 92] @ quote_chars cs
     else if c = 8 then [92, 98] @ quote_chars cs
     else if c = 12 then [92, 102] @ quote_chars cs
     else if c = 10 then [92, 110] @ quote_chars cs
     else if c = 13 then [92, 114] @ quote_chars cs
     else if c = 9 then [92, 116] @ quote_chars cs
     else if c < 32 then escape_unit c @ quote_chars cs
     else if is_high_surrogate c then
       (case cs of
          [] \<Rightarrow> escape_unit c
        | d # r \<Rightarrow>
           (if is_low_surrogate d then c # d # quote_chars r
            else escape_unit c @ quote_chars cs))
     else if is_low_surrogate c then escape_unit c @ quote_chars cs
     else c # quote_chars cs)"

definition quote :: "jsstring \<Rightarrow> jsstring" where
  "quote s = [34] @ quote_chars s @ [34]"

definition indent :: "nat \<Rightarrow> jsstring" where
  "indent k = replicate (2 * k) 32"

fun stringify :: "nat \<Rightarrow> json \<Rightarrow> jsstring" where
  "stringify k JNull = js ''null''"
| "stringify k (JBool b) = (if b then js ''true'' else js ''false'')"
| "stringify k (JNum lexeme) = lexeme"
| "stringify k (JStr s) = quote s"
| "stringify k (JArr vs) =
    (if vs = [] then js ''[]''
     else js ''['' @ [10] @ indent (Suc k) @
          join_with (js '','' @ [10] @ indent (Suc k)) (map (stringify (Suc k)) vs) @
          [10] @ indent k @ js '']'')"
| "stringify k (JObj ms) =
    (if ms = [] then js ''{}''
     else js ''{'' @ [10] @ indent (Suc k) @
          join_with (js '','' @ [10] @ indent (Suc k))
            (map (\<lambda>m. quote (fst m) @ js '': '' @ stringify (Suc k) (snd m)) ms) @
          [10] @ indent k @ js ''}'')"

definition JSON_stringify :: "json \<Rightarrow> jsstring" where
  "JSON_stringify v = stringify 0 v"

section \<open>Buffers\<close>

text \<open>
  \<open>buffer.toString('utf8')\<close> decodes with replacement: every maximal ill-formed
  subsequence becomes U+FFFD, and a code point beyond the basic plane becomes a
  surrogate pair. The decoder works on the values of the bytes.
\<close>

definition is_cont :: "nat \<Rightarrow> bool" where
  "is_cont b \<longleftrightarrow> 128 \<le> b \<and> b \<le> 191"

definition second_ok :: "nat \<Rightarrow> nat \<Rightarrow> bool" where
  "second_ok b c \<longleftrightarrow>
     (if b = 224 then 160 \<le> c \<and> c \<le> 191
      else if b = 237 then 128 \<le> c \<and> c \<le> 159
      else if b = 240 then 144 \<le> c \<and> c \<le> 191
      else if b = 244 then 128 \<le> c \<and> c \<le> 143
      else is_cont c)"

definition surrogates :: "nat \<Rightarrow> jsstring" where
  "surrogates cp = [55296 + (cp - 65536) div 1024, 56320 + (cp - 65536) mod 1024]"

fun utf8_decode :: "nat list \<Rightarrow> jsstring" where
  "utf8_decode [] = []"
| "utf8_decode (b # bs) =
    (if b < 128 then b # utf8_decode bs
     else if 194 \<le> b \<and> b \<le> 223 then
       (case bs of
          [] \<Rightarrow> [65533]
        | c1 # r1 \<Rightarrow>
           (if is_cont c1 then ((b - 192) * 64 + (c1 - 128)) # utf8_decode r1
            else 65533 # utf8_decode bs))
     else if 224 \<le> b \<and> b \<le> 239 then
       (case bs of
          [] \<Rightarrow> [65533]
        | c1 # r1 \<Rightarrow>
           (if second_ok b c1 then
              (case r1 of
                 [] \<Rightarrow> [65533]
               | c2 # r2 \<Rightarrow>
                  (if is_cont c2 then
                     ((b - 224) * 4096 + (c1 - 128) * 64 + (c2 - 128)) # utf8_decode r2
                   else 65533 # utf8_decode r1))
            else 65533 # utf8_decode bs))
     else if 240 \<le> b \<and> b \<le> 244 then
       (case bs of
          [] \<Rightarrow> [65533]
        | c1 # r1 \<Rightarrow>
           (if second_ok b c1 then
              (case r1 of
                 [] \<Rightarrow> [65533]
               | c2 # r2 \<Rightarrow>
                  (if is_cont c2 then
                     (case r2 of
                        [] \<Rightarrow> [65533]
                      | c3 # r3 \<Rightarrow>
                         (if is_cont c3 then
                            surrogates ((b - 240) * 262144 + (c1 - 128) * 4096 +
                                        (c2 - 128) * 64 + (c3 - 128)) @ utf8_decode r3
                          else 65533 # utf8_decode r2))
                   else 65533 # utf8_decode r1))
            else 65533 # utf8_decode bs))
     else 65533 # utf8_decode bs)"

definition toString_utf8 :: "byte list \<Rightarrow> jsstring" where
  "toString_utf8 buf = utf8_decode (map unat buf)"

text \<open>
  \<open>Buffer.from(s, 'utf8')\<close>: a surrogate pair is one four-byte sequence, a lone
  surrogate is encoded as U+FFFD.
\<close>

fun utf8_encode :: "jsstring \<Rightarrow> nat list" where
  "utf8_encode [] = []"
| "utf8_encode (u # us) =
    (if u < 128 then u # utf8_encode us
     else if u < 2048 then [192 + u div 64, 128 + u mod 64] @ utf8_encode us
     else if is_high_surrogate u then
       (case us of
          [] \<Rightarrow> [239, 191, 189]
        | l # r \<Rightarrow>
           (if is_low_surrogate l then
              (let cp = 65536 + (u - 55296) * 1024 + (l - 56320)
               in [240 + cp div 262144, 128 + cp div 4096 mod 64,
                   128 + cp div 64 mod 64, 128 + cp mod 64] @ utf8_encode r)
            else [239, 191, 189] @ utf8_encode us))
     else if is_low_surrogate u then [239, 191, 189] @ utf8_encode us
     else [224 + u div 4096, 128 + u div 64 mod 64, 128 + u mod 64] @ utf8_encode us)"

definition Buffer_from_utf8 :: "jsstring \<Rightarrow> byte list" where
  "Buffer_from_utf8 s = map of_nat (utf8_encode s)"

text \<open>Well-formed UTF-8 byte sequences (the Unicode standard's table 3-7).\<close>

fun valid_utf8 :: "nat list \<Rightarrow> bool" where
  "valid_utf8 [] = True"
| "valid_utf8 (b # bs) =
    (if b < 128 then valid_utf8 bs
     else if 194 \<le> b \<and> b \<le> 223 then
       (case bs of c1 # r1 \<Rightarrow> is_cont c1 \<and> valid_utf8 r1 | _ \<Rightarrow> False)
     else if 224 \<le> b \<and> b \<le> 239 then
       (case bs of
          c1 # c2 # r2 \<Rightarrow> second_ok b c1 \<and> is_cont c2 \<and> valid_utf8 r2
        | _ \<Rightarrow> False)
     else if 240 \<le> b \<and> b \<le> 244 then
       (case bs of
          c1 # c2 # c3 # r3 \<Rightarrow> second_ok b c1 \<and> is_cont c2 \<and> is_cont c3 \<and> valid_utf8 r3
        | _ \<Rightarrow> False)
     else False)"

text \<open>\<open>buffer.toString('base64')\<close>.\<close>

definition base64_char :: "nat \<Rightarrow> nat" where
  "base64_char n =
    (if n < 26 then 65 + n
     else if n < 52 then 71 + n
     else if n < 62 then n - 4
     else if n = 62 then 43
     else 47)"

fun base64_encode :: "nat list \<Rightarrow> jsstring" where
  "base64_encode [] = []"
| "base64_encode [a] = [base64_char (a div 4), base64_char (a mod 4 * 16), 61, 61]"
| "base64_encode [a, b] =
    [base64_char (a div 4), base64_char (a mod 4 * 16 + b div 16),
     base64_char (b mod 16 * 4), 61]"
| "base64_encode (a # b # c # r) =
    [base64_char (a div 4), base64_char (a mod 4 * 16 + b div 16),
     base64_char (b mod 16 * 4 + c div 64), base64_char (c mod 64)] @ base64_encode r"

definition toString_base64 :: "byte list \<Rightarrow> jsstring" where
  "toString_base64 buf = base64_encode (map unat buf)"

text \<open>
  \<open>Buffer.from(s, 'base64')\<close> is lenient: it accepts the URL-safe alphabet as well,
  passes over a character outside both alphabets and stops at the first padding
  character; an incomplete last group gives the bytes it determines.
\<close>

definition base64_val :: "nat \<Rightarrow> nat option" where
  "base64_val c =
    (if 65 \<le> c \<and> c \<le> 90 then Some (c - 65)
     else if 97 \<le> c \<and> c \<le> 122 then Some (c - 71)
     else if 48 \<le> c \<and> c \<le> 57 then Some (c + 4)
     else if c = 43 \<or> c = 45 then Some 62
     else if c = 47 \<or> c = 95 then Some 63
     else None)"

fun sextets :: "jsstring \<Rightarrow> nat list" where
  "sextets [] = []"
| "sextets (c # cs) =
    (if c = 61 then []
     else (case base64_val c of None \<Rightarrow> sextets cs | Some v \<Rightarrow> v # sextets cs))"

fun from_sextets :: "nat list \<Rightarrow> nat list" where
  "from_sextets (w # x # y # z # r) =
    [w * 4 + x div 16, x mod 16 * 16 + y div 4, y mod 4 * 64 + z] @ from_sextets r"
| "from_sextets [w, x, y] = [w * 4 + x div 16, x mod 16 * 16 + y div 4]"
| "from_sextets [w, x] = [w * 4 + x div 16]"
| "from_sextets [w] = []"
| "from_sextets [] = []"

definition Buffer_from_base64 :: "jsstring \<Rightarrow> byte list" where
  "Buffer_from_base64 s = map of_nat (from_sextets (sextets s))"

text \<open>Reading and writing a file as text, with the encoding \<open>utf8\<close>.\<close>

definition readTextSync :: "node \<Rightarrow> jsstring \<Rightarrow> exn + jsstring" where
  "readTextSync fs p =
    (case readFileSync fs p of Inl e \<Rightarrow> Inl e | Inr buf \<Rightarrow> Inr (toString_utf8 buf))"

definition writeTextSync :: "jsstring \<Rightarrow> jsstring \<Rightarrow> node \<Rightarrow> exn + node" where
  "writeTextSync p s fs = writeFileSync p (Buffer_from_utf8 s) fs"

section \<open>The data model (\<open>types.ts\<close>)\<close>

datatype StructureItem =
    is_directory: DirectoryItem (path: jsstring) (name: jsstring)
  | is_file: FileItem (path: jsstring) (name: jsstring) (size_bytes: nat)
      (contentIndex: "nat option") (content: "jsstring option")
      (encoding: "jsstring option") (contentFile: "jsstring option")

record SnapMetadata =
  timestamp :: jsstring
  sourceFolder :: jsstring
  totalFiles :: nat
  totalDirectories :: nat
  version :: "jsstring option"

text \<open>
  \<open>SnapResult\<close>. The field \<open>error\<close> holds the caught exception whose message the code
  reports; \<open>stats\<close> is a JSON value, since the reader returns the metadata as parsed.
\<close>

record SnapResult =
  success :: bool
  result_outputPath :: "jsstring option"
  result_outputFolder :: "jsstring option"
  stats :: "json option"
  error :: "exn option"

text \<open>
  \<open>FolderStats\<close> without \<open>totalSizeFormatted\<close>, which \<open>formatBytes\<close> computes in
  floating point.
\<close>

record FolderStats =
  stats_files :: nat
  stats_directories :: nat
  totalSize :: nat

text \<open>
  The instance: its options and the rule set of the \<open>ignore\<close> package, kept as the
  list of the patterns added so far. The option \<open>encoding\<close> is fixed to its default
  \<open>utf8\<close>. The package's matcher is a parameter of every function that consults it.
\<close>

record FolderSnap =
  gitignoreFile :: jsstring
  includeHidden :: bool
  ig :: "jsstring list"

type_synonym matcher = "jsstring list \<Rightarrow> jsstring \<Rightarrow> bool"

definition failure :: "exn \<Rightarrow> SnapResult" where
  "failure e = \<lparr>success = False, result_outputPath = None, result_outputFolder = None, stats = None,
                 error = Some e\<rparr>"

text \<open>\<open>JSON.parse\<close> as a call that throws.\<close>

definition parsed :: "jsstring \<Rightarrow> exn + json" where
  "parsed s = (case JSON_parse s of None \<Rightarrow> Inl SyntaxError | Some v \<Rightarrow> Inr v)"

text \<open>How the items and the metadata appear in \<open>JSON.stringify\<close>, key by key.\<close>

definition optional_member :: "jsstring \<Rightarrow> jsstring option \<Rightarrow> (jsstring \<times> json) list" where
  "optional_member k v = (case v of None \<Rightarrow> [] | Some s \<Rightarrow> [(k, JStr s)])"

fun item_json :: "StructureItem \<Rightarrow> json" where
  "item_json (DirectoryItem p n) =
    JObj [(js ''type'', JStr (js ''directory'')), (js ''path'', JStr p), (js ''name'', JStr n)]"
| "item_json (FileItem p n sz ci c e cf) =
    JObj ([(js ''type'', JStr (js ''file'')), (js ''path'', JStr p), (js ''name'', JStr n),
           (js ''size'', JNum (show_nat sz))]
          @ optional_member (js ''content'') c
          @ optional_member (js ''encoding'') e
          @ optional_member (js ''contentFile'') cf)"

definition metadata_json :: "SnapMetadata \<Rightarrow> json" where
  "metadata_json m =
    JObj ([(js ''timestamp'', JStr (timestamp m)),
           (js ''sourceFolder'', JStr (sourceFolder m)),
           (js ''totalFiles'', JNum (show_nat (totalFiles m))),
           (js ''totalDirectories'', JNum (show_nat (totalDirectories m)))]
          @ optional_member (js ''version'') (version m))"

text \<open>
  Reading parsed data. \<open>get v k\<close> is the property access \<open>v.k\<close>: it throws on
  \<open>null\<close>, and \<open>None\<close> is \<open>undefined\<close>. In an object with a repeated key the
  last member counts.
\<close>

definition get :: "json \<Rightarrow> jsstring \<Rightarrow> exn + json option" where
  "get v k =
    (case v of
       JNull \<Rightarrow> Inl TypeError
     | JObj ms \<Rightarrow> Inr (map_of (rev ms) k)
     | _ \<Rightarrow> Inr None)"

text \<open>
  A number is falsy when it is zero: when all its digits are zero, or when its value
  is so small that the nearest double is zero, which is the case up to \<open>2\<^sup>-\<^sup>1\<^sup>0\<^sup>7\<^sup>5\<close>.
  The value of the lexeme is \<open>mantissa * 10 ^ scale\<close>.
\<close>

definition digits_value :: "jsstring \<Rightarrow> nat" where
  "digits_value ds = foldl (\<lambda>n d. 10 * n + (d - 48)) 0 ds"

definition num_is_zero :: "jsstring \<Rightarrow> bool" where
  "num_is_zero lexeme =
    (let unsigned = (if lexeme \<noteq> [] \<and> hd lexeme = 45 then tl lexeme else lexeme);
         int_digits = takeWhile is_digit unsigned;
         after_int = dropWhile is_digit unsigned;
         has_fraction = (after_int \<noteq> [] \<and> hd after_int = 46);
         frac_digits = (if has_fraction then takeWhile is_digit (tl after_int) else []);
         after_frac = (if has_fraction then dropWhile is_digit (tl after_int) else after_int);
         exp_text = (if after_frac = [] then [] else tl after_frac);
         exponent =
           (if exp_text \<noteq> [] \<and> hd exp_text = 45 then - int (digits_value (tl exp_text))
            else if exp_text \<noteq> [] \<and> hd exp_text = 43 then int (digits_value (tl exp_text))
            else int (digits_value exp_text));
         mantissa = digits_value (int_digits @ frac_digits);
         scale = exponent - int (length frac_digits)
     in mantissa = 0 \<or> (scale < 0 \<and> mantissa * 2 ^ 1075 \<le> 10 ^ nat (- scale)))"

fun truthy :: "json option \<Rightarrow> bool" where
  "truthy None = False"
| "truthy (Some JNull) = False"
| "truthy (Some (JBool b)) = b"
| "truthy (Some (JNum lexeme)) = (\<not> num_is_zero lexeme)"
| "truthy (Some (JStr s)) = (s \<noteq> [])"
| "truthy (Some (JArr vs)) = True"
| "truthy (Some (JObj ms)) = True"

text \<open>
  Converting a parsed value to a string, as a template literal does, throws for an
  object with a member \<open>toString\<close>, which is no function, also when the object is
  an element of an array.
\<close>

fun ToString_throws :: "json \<Rightarrow> bool" where
  "ToString_throws (JObj ms) = (map_of ms (js ''toString'') \<noteq> None)"
| "ToString_throws (JArr vs) = list_ex ToString_throws vs"
| "ToString_throws v = False"

text \<open>A path argument of \<open>path.join\<close> must be a string.\<close>

fun as_string :: "json option \<Rightarrow> exn + jsstring" where
  "as_string (Some (JStr s)) = Inr s"
| "as_string _ = Inl TypeError"

text \<open>\<open>v.filter(item => item.type === ty)\<close>, which throws unless \<open>v\<close> is an array.\<close>

fun filter_type :: "jsstring \<Rightarrow> json list \<Rightarrow> exn + json list" where
  "filter_type ty [] = Inr []"
| "filter_type ty (v # vs) =
    (case get v (js ''type'') of
       Inl e \<Rightarrow> Inl e
     | Inr t \<Rightarrow>
        (case filter_type ty vs of
           Inl e \<Rightarrow> Inl e
         | Inr r \<Rightarrow> Inr (if t = Some (JStr ty) then v # r else r)))"

fun structure_filter :: "json option \<Rightarrow> jsstring \<Rightarrow> exn + json list" where
  "structure_filter (Some (JArr vs)) ty = filter_type ty vs"
| "structure_filter _ ty = Inl TypeError"

section \<open>The class \<open>FolderSnap\<close> with sidecar content files (\<open>src/index.ts\<close>)\<close>

definition constructor :: "jsstring option \<Rightarrow> bool option \<Rightarrow> FolderSnap" where
  "constructor gitignoreFile_option includeHidden_option =
    \<lparr>gitignoreFile = (case gitignoreFile_option of None \<Rightarrow> js ''.gitignore'' | Some f \<Rightarrow> f),
     includeHidden = (case includeHidden_option of None \<Rightarrow> False | Some b \<Rightarrow> b),
     ig = []\<rparr>"

definition default_ignores :: "jsstring list" where
  "default_ignores =
    [js ''node_modules/'', js ''venv/'', js ''.git/'', js ''*.log'', js ''.DS_Store'',
     js ''Thumbs.db'']"

text \<open>\<open>ig.add(text)\<close> adds the lines of the text, one pattern each.\<close>

definition text_lines :: "jsstring \<Rightarrow> jsstring list" where
  "text_lines s = map (\<lambda>l. if l \<noteq> [] \<and> last l = 13 then butlast l else l) (split_at 10 s)"

text \<open>
  \<open>loadGitignore\<close> adds to the rule set of the instance. The default patterns are
  added before the rule file is read, so they stay added when the read throws.
\<close>

definition loadGitignore :: "FolderSnap \<Rightarrow> jsstring \<Rightarrow> node \<Rightarrow> (exn + unit) \<times> FolderSnap" where
  "loadGitignore this folderPath fs =
    (let gitignorePath = path_join [folderPath, gitignoreFile this];
         this1 = this\<lparr>ig := ig this @ default_ignores\<rparr>
     in if existsSync fs gitignorePath then
          (case readTextSync fs gitignorePath of
             Inl e \<Rightarrow> (Inl e, this1)
           | Inr gitignoreContent \<Rightarrow>
               (Inr (), this1\<lparr>ig := ig this1 @ text_lines gitignoreContent\<rparr>))
        else (Inr (), this1))"

definition shouldIgnore :: "matcher \<Rightarrow> FolderSnap \<Rightarrow> jsstring \<Rightarrow> bool" where
  "shouldIgnore ignores this relativePath =
    (if \<not> includeHidden this \<and> startsWith (basename relativePath) (js ''.'') then True
     else ignores (ig this) relativePath)"

text \<open>The character class \<open>[a-zA-Z0-9._-]\<close>.\<close>

definition safe_unit :: "nat \<Rightarrow> bool" where
  "safe_unit c \<longleftrightarrow>
     (97 \<le> c \<and> c \<le> 122) \<or> (65 \<le> c \<and> c \<le> 90) \<or> (48 \<le> c \<and> c \<le> 57) \<or>
     c = 46 \<or> c = 95 \<or> c = 45"

definition generateContentFilename :: "jsstring \<Rightarrow> nat option \<Rightarrow> jsstring" where
  "generateContentFilename filePath index =
    (let safePath = map (\<lambda>c. if safe_unit c then c else 95) filePath
     in js ''content_'' @ (case index of None \<Rightarrow> js ''undefined'' | Some i \<Rightarrow> show_nat i) @
        js ''_'' @ safePath @ js ''.bin'')"

text \<open>
  \<open>readFolderStructure\<close>: the loop over the listing \<open>items\<close> of one folder, whose path
  relative to the base is \<open>rel\<close>; \<open>structure\<close> is the array built so far. The
  recursive call for a subdirectory starts from an empty array of its own, and
  \<open>contentIndex\<close> counts the files in the array of the current call.
\<close>

fun readFolderStructure ::
  "matcher \<Rightarrow> FolderSnap \<Rightarrow> jsstring \<Rightarrow> (jsstring \<times> node) list \<Rightarrow> StructureItem list \<Rightarrow>
   StructureItem list" where
  "readFolderStructure ignores this rel [] structure = structure"
| "readFolderStructure ignores this rel ((item, nd) # items) structure =
    (let relativePath = relative_item rel item
     in if shouldIgnore ignores this relativePath then
          readFolderStructure ignores this rel items structure
        else
          (case nd of
             Dir sub \<Rightarrow>
               readFolderStructure ignores this rel items
                 (structure @ [DirectoryItem relativePath item] @
                  readFolderStructure ignores this relativePath sub [])
           | File buf \<Rightarrow>
               readFolderStructure ignores this rel items
                 (structure @
                  [FileItem relativePath item (length buf)
                     (Some (length (filter is_file structure))) None None None])))"

text \<open>
  The loop that writes the sidecar files. It runs over the file items, which the array
  \<open>structure\<close> shares, so setting \<open>contentFile\<close> shows in \<open>structure\<close>; the model
  passes over the directory items. A failed read or write is caught and an empty
  sidecar file written instead; when that write throws too, the exception leaves the loop.
\<close>

fun write_contents ::
  "jsstring \<Rightarrow> jsstring \<Rightarrow> StructureItem list \<Rightarrow> node \<Rightarrow> (exn + StructureItem list) \<times> node" where
  "write_contents folder contentDir [] fs = (Inr [], fs)"
| "write_contents folder contentDir (DirectoryItem p n # items) fs =
    (case write_contents folder contentDir items fs of
       (Inl e, fs') \<Rightarrow> (Inl e, fs')
     | (Inr r, fs') \<Rightarrow> (Inr (DirectoryItem p n # r), fs'))"
| "write_contents folder contentDir (FileItem p n sz ci c e cf # items) fs =
    (let filePath = path_join [folder, p];
         contentFilename = generateContentFilename p ci;
         contentPath = path_join [contentDir, contentFilename];
         attempt = (case readFileSync fs filePath of
                      Inl x \<Rightarrow> Inl x
                    | Inr buffer \<Rightarrow> writeFileSync contentPath buffer fs);
         written = (case attempt of
                      Inl x \<Rightarrow> writeFileSync contentPath [] fs
                    | Inr fs1 \<Rightarrow> Inr fs1)
     in case written of
          Inl x \<Rightarrow> (Inl x, fs)
        | Inr fs1 \<Rightarrow>
           (case write_contents folder contentDir items fs1 of
              (Inl x, fs') \<Rightarrow> (Inl x, fs')
            | (Inr r, fs') \<Rightarrow> (Inr (FileItem p n sz ci c e (Some contentFilename) # r), fs')))"

text \<open>The serialised item: \<open>contentIndex\<close> is left out.\<close>

fun strip_index :: "StructureItem \<Rightarrow> StructureItem" where
  "strip_index (DirectoryItem p n) = DirectoryItem p n"
| "strip_index (FileItem p n sz ci c e cf) = FileItem p n sz None c e cf"

text \<open>\<open>outputPath.replace(/\.snap$/, '_snap')\<close>.\<close>

definition snapDir_of :: "jsstring \<Rightarrow> jsstring" where
  "snapDir_of outputPath =
    (if endsWith outputPath (js ''.snap'')
     then take (length outputPath - 5) outputPath @ js ''_snap''
     else outputPath)"

definition snapReference_json :: "jsstring \<Rightarrow> SnapMetadata \<Rightarrow> json" where
  "snapReference_json snapDir metadata =
    JObj [(js ''type'', JStr (js ''folder-snap-v3'')),
          (js ''snapDirectory'', JStr (basename snapDir)),
          (js ''metadata'', metadata_json metadata)]"

text \<open>
  The directories of the output: the parent of the output file, then the snap directory,
  removed first when it exists, and its \<open>content\<close> directory.
\<close>

definition make_output_dirs :: "jsstring \<Rightarrow> node \<Rightarrow> (exn + unit) \<times> node" where
  "make_output_dirs outputPath fs =
    (let outputDir = dirname outputPath
     in case (if \<not> existsSync fs outputDir then mkdirSync outputDir fs else (Inr (), fs)) of
          (Inl e, fs1) \<Rightarrow> (Inl e, fs1)
        | (Inr u, fs1) \<Rightarrow>
           (let snapDir = snapDir_of outputPath;
                fs2 = (if existsSync fs1 snapDir then rmSync snapDir fs1 else fs1)
            in case mkdirSync snapDir fs2 of
                 (Inl e, fs3) \<Rightarrow> (Inl e, fs3)
               | (Inr u, fs3) \<Rightarrow> mkdirSync (path_join [snapDir, js ''content'']) fs3))"

definition metadataData_json :: "SnapMetadata \<Rightarrow> StructureItem list \<Rightarrow> json" where
  "metadataData_json metadata structure =
    JObj [(js ''metadata'', metadata_json metadata),
          (js ''structure'', JArr (map (\<lambda>item. item_json (strip_index item)) structure))]"

text \<open>The sidecar files, then \<open>metadata.json\<close>, then the snap file itself.\<close>

definition write_snap ::
  "SnapMetadata \<Rightarrow> StructureItem list \<Rightarrow> jsstring \<Rightarrow> jsstring \<Rightarrow> node \<Rightarrow> (exn + unit) \<times> node" where
  "write_snap metadata structure folderPath outputPath fs =
    (let snapDir = snapDir_of outputPath
     in case write_contents folderPath (path_join [snapDir, js ''content'']) structure fs of
          (Inl e, fs5) \<Rightarrow> (Inl e, fs5)
        | (Inr structure', fs5) \<Rightarrow>
           (case writeTextSync (path_join [snapDir, js ''metadata.json''])
                   (JSON_stringify (metadataData_json metadata structure')) fs5 of
              Inl e \<Rightarrow> (Inl e, fs5)
            | Inr fs6 \<Rightarrow>
               (case writeTextSync outputPath
                       (JSON_stringify (snapReference_json snapDir metadata)) fs6 of
                  Inl e \<Rightarrow> (Inl e, fs6)
                | Inr fs7 \<Rightarrow> (Inr (), fs7))))"

text \<open>
  The \<open>try\<close> block of \<open>folderToText\<close>. The result is the exception that left the block
  or the metadata, with the instance and the file system as they are at that point.
  \<open>now\<close> is the time stamp \<open>new Date().toISOString()\<close>.
\<close>

definition snap_metadata :: "jsstring \<Rightarrow> jsstring \<Rightarrow> StructureItem list \<Rightarrow> SnapMetadata" where
  "snap_metadata now folderPath structure =
    \<lparr>timestamp = now, sourceFolder = basename folderPath,
     totalFiles = length (filter is_file structure),
     totalDirectories = length (filter is_directory structure),
     version = Some (js ''3.0'')\<rparr>"

definition folderToText_try ::
  "matcher \<Rightarrow> jsstring \<Rightarrow> FolderSnap \<Rightarrow> jsstring \<Rightarrow> jsstring \<Rightarrow> node \<Rightarrow>
   (exn + SnapMetadata) \<times> FolderSnap \<times> node" where
  "folderToText_try ignores now this folderPath outputPath fs =
    (if \<not> existsSync fs folderPath then
       (Inl (SourceFolderDoesNotExist folderPath), this, fs)
     else if isDirectory fs folderPath \<noteq> Inr True then
       (Inl (SourcePathIsNotADirectory folderPath), this, fs)
     else
       (case loadGitignore this folderPath fs of
          (Inl e, this1) \<Rightarrow> (Inl e, this1, fs)
        | (Inr u, this1) \<Rightarrow>
           (case readdirSync fs folderPath of
              Inl e \<Rightarrow> (Inl e, this1, fs)
            | Inr items \<Rightarrow>
               (let structure = readFolderStructure ignores this1 [] items [];
                    metadata = snap_metadata now folderPath structure
                in case make_output_dirs outputPath fs of
                     (Inl e, fs4) \<Rightarrow> (Inl e, this1, fs4)
                   | (Inr u, fs4) \<Rightarrow>
                      (case write_snap metadata structure folderPath outputPath fs4 of
                         (Inl e, fs7) \<Rightarrow> (Inl e, this1, fs7)
                       | (Inr u, fs7) \<Rightarrow> (Inr metadata, this1, fs7))))))"

text \<open>
  \<open>folderToText\<close>: the \<open>try\<close> block returns the result of a success, and the
  \<open>catch\<close> block returns the result of a failure for whatever was thrown.
\<close>

definition packed :: "jsstring \<Rightarrow> SnapMetadata \<Rightarrow> SnapResult" where
  "packed outputPath metadata =
    \<lparr>success = True, result_outputPath = Some outputPath, result_outputFolder = None,
     stats = Some (metadata_json metadata), error = None\<rparr>"

definition folderToText ::
  "matcher \<Rightarrow> jsstring \<Rightarrow> FolderSnap \<Rightarrow> jsstring \<Rightarrow> jsstring \<Rightarrow> node \<Rightarrow>
   (exn + SnapResult) \<times> FolderSnap \<times> node" where
  "folderToText ignores now this folderPath outputPath fs =
    (case folderToText_try ignores now this folderPath outputPath fs of
       (body, this', fs') \<Rightarrow>
         (catch (case body of Inl e \<Rightarrow> Inl e | Inr metadata \<Rightarrow> Inr (packed outputPath metadata))
            (\<lambda>error. Inr (failure error)),
          this', fs'))"

text \<open>
  The two loops of the restore. Creating a directory is tried and a failure passed over;
  \<open>path.join\<close> stands before the \<open>try\<close>, so a path that is no string leaves the loop.
\<close>

fun create_directories :: "jsstring \<Rightarrow> json list \<Rightarrow> node \<Rightarrow> (exn + unit) \<times> node" where
  "create_directories outputFolder [] fs = (Inr (), fs)"
| "create_directories outputFolder (dir # dirs) fs =
    (case get dir (js ''path'') of
       Inl e \<Rightarrow> (Inl e, fs)
     | Inr p \<Rightarrow>
        (case as_string p of
           Inl e \<Rightarrow> (Inl e, fs)
         | Inr dir_path \<Rightarrow>
            create_directories outputFolder dirs
              (snd (mkdirSync (path_join [outputFolder, dir_path]) fs))))"

definition write_or_skip :: "jsstring \<Rightarrow> byte list \<Rightarrow> node \<Rightarrow> node" where
  "write_or_skip filePath buffer fs =
    (case writeFileSync filePath buffer fs of Inl e \<Rightarrow> fs | Inr fs' \<Rightarrow> fs')"

text \<open>
  The \<open>try\<close> block for one file of a v3 snap, with its \<open>catch\<close>: the file system after
  it, whether the block completed or threw.
\<close>

definition restore_file_v3 :: "jsstring \<Rightarrow> jsstring \<Rightarrow> json \<Rightarrow> node \<Rightarrow> node" where
  "restore_file_v3 snapDir filePath file fs =
    (let fileDir = dirname filePath
     in case (if \<not> existsSync fs fileDir then mkdirSync fileDir fs else (Inr (), fs)) of
          (Inl e, fs1) \<Rightarrow> fs1
        | (Inr u, fs1) \<Rightarrow>
           (case get file (js ''contentFile'') of
              Inl e \<Rightarrow> fs1
            | Inr cf \<Rightarrow>
               (if truthy cf then
                  (case as_string cf of
                     Inl e \<Rightarrow> fs1
                   | Inr contentFile_name \<Rightarrow>
                      (let contentPath = path_join [snapDir, js ''content'', contentFile_name]
                       in if existsSync fs1 contentPath then
                            (case readFileSync fs1 contentPath of
                               Inl e \<Rightarrow> fs1
                             | Inr buffer \<Rightarrow> write_or_skip filePath buffer fs1)
                          else write_or_skip filePath [] fs1))
                else write_or_skip filePath [] fs1)))"

text \<open>
  The loop over the file entries; \<open>restore_file\<close> is the \<open>try\<close> block for one file.
\<close>

fun restore_files ::
  "(jsstring \<Rightarrow> json \<Rightarrow> node \<Rightarrow> node) \<Rightarrow> jsstring \<Rightarrow> json list \<Rightarrow> node \<Rightarrow> (exn + unit) \<times> node" where
  "restore_files restore_file outputFolder [] fs = (Inr (), fs)"
| "restore_files restore_file outputFolder (file # files) fs =
    (case get file (js ''path'') of
       Inl e \<Rightarrow> (Inl e, fs)
     | Inr p \<Rightarrow>
        (case as_string p of
           Inl e \<Rightarrow> (Inl e, fs)
         | Inr file_path \<Rightarrow>
            restore_files restore_file outputFolder files
              (restore_file (path_join [outputFolder, file_path]) file fs)))"

text \<open>
  The last line that the restore prints holds \<open>data.metadata.timestamp\<close>: it throws
  when the metadata are missing or \<open>null\<close>, or when the time stamp has no text.
\<close>

definition log_timestamp :: "json option \<Rightarrow> exn + unit" where
  "log_timestamp metadata =
    (case metadata of
       None \<Rightarrow> Inl TypeError
     | Some m \<Rightarrow>
        (case get m (js ''timestamp'') of
           Inl e \<Rightarrow> Inl e
         | Inr None \<Rightarrow> Inr ()
         | Inr (Some t) \<Rightarrow> (if ToString_throws t then Inl TypeError else Inr ())))"

text \<open>
  The restore of parsed data, from \<open>Create output folder\<close> to the returned metadata:
  the output folder, the directories, the files, the printed summary.
\<close>

definition restore_structure ::
  "(jsstring \<Rightarrow> json \<Rightarrow> node \<Rightarrow> node) \<Rightarrow> jsstring \<Rightarrow> json \<Rightarrow> node \<Rightarrow> (exn + json option) \<times> node" where
  "restore_structure restore_file outputFolder data fs =
    (case (if \<not> existsSync fs outputFolder then mkdirSync outputFolder fs else (Inr (), fs)) of
       (Inl e, fs1) \<Rightarrow> (Inl e, fs1)
     | (Inr u, fs1) \<Rightarrow>
      (case get data (js ''structure'') of
         Inl e \<Rightarrow> (Inl e, fs1)
       | Inr structure \<Rightarrow>
        (case structure_filter structure (js ''directory'') of
           Inl e \<Rightarrow> (Inl e, fs1)
         | Inr directories \<Rightarrow>
          (case create_directories outputFolder directories fs1 of
             (Inl e, fs2) \<Rightarrow> (Inl e, fs2)
           | (Inr u, fs2) \<Rightarrow>
            (case structure_filter structure (js ''file'') of
               Inl e \<Rightarrow> (Inl e, fs2)
             | Inr files \<Rightarrow>
              (case restore_files restore_file outputFolder files fs2 of
                 (Inl e, fs3) \<Rightarrow> (Inl e, fs3)
               | (Inr u, fs3) \<Rightarrow>
                (case get data (js ''metadata'') of
                   Inl e \<Rightarrow> (Inl e, fs3)
                 | Inr metadata \<Rightarrow>
                    (case log_timestamp metadata of
                       Inl e \<Rightarrow> (Inl e, fs3)
                     | Inr u \<Rightarrow> (Inr metadata, fs3)))))))))"

text \<open>The \<open>try\<close> block of \<open>unpackV3Snap\<close>: the exception or the metadata to return.\<close>

definition unpackV3Snap_try ::
  "jsstring \<Rightarrow> jsstring \<Rightarrow> json \<Rightarrow> node \<Rightarrow> (exn + json option) \<times> node" where
  "unpackV3Snap_try snapFilePath outputFolder snapData fs =
    (case get snapData (js ''snapDirectory'') of
       Inl e \<Rightarrow> (Inl e, fs)
     | Inr sd \<Rightarrow>
      (case as_string sd of
         Inl e \<Rightarrow> (Inl e, fs)
       | Inr snapDirectory \<Rightarrow>
        (let snapDir = path_join [dirname snapFilePath, snapDirectory];
             metadataPath = path_join [snapDir, js ''metadata.json'']
         in if \<not> existsSync fs snapDir then (Inl (SnapDirectoryNotFound snapDir), fs)
            else if \<not> existsSync fs metadataPath then (Inl (MetadataFileNotFound metadataPath), fs)
            else
             (case readTextSync fs metadataPath of
                Inl e \<Rightarrow> (Inl e, fs)
              | Inr metadataContent \<Rightarrow>
                 (case JSON_parse metadataContent of
                    None \<Rightarrow> (Inl SyntaxError, fs)
                  | Some data \<Rightarrow>
                     restore_structure (restore_file_v3 snapDir) outputFolder data fs)))))"

definition restored :: "jsstring \<Rightarrow> json option \<Rightarrow> SnapResult" where
  "restored outputFolder metadata =
    \<lparr>success = True, result_outputPath = None, result_outputFolder = Some outputFolder,
     stats = metadata, error = None\<rparr>"

text \<open>
  \<open>unpackV3Snap\<close> and \<open>unpackLegacySnap\<close> catch what their \<open>try\<close> block throws
  and return the result of a failure.
\<close>

definition unpackV3Snap ::
  "jsstring \<Rightarrow> jsstring \<Rightarrow> json \<Rightarrow> node \<Rightarrow> (exn + SnapResult) \<times> node" where
  "unpackV3Snap snapFilePath outputFolder snapData fs =
    (case unpackV3Snap_try snapFilePath outputFolder snapData fs of
       (body, fs') \<Rightarrow>
         (catch (case body of Inl e \<Rightarrow> Inl e | Inr metadata \<Rightarrow> Inr (restored outputFolder metadata))
            (\<lambda>error. Inr (failure error)),
          fs'))"

text \<open>
  The bytes of a file with embedded content: what the block \<open>Handle legacy content\<close>
  writes for the fields \<open>content\<close> and \<open>encoding\<close> of an entry. For a string these are
  its bytes in the encoding. Content that is an array is written element by element,
  and content that is an object goes through \<open>content.length > 0\<close> and
  \<open>Buffer.from\<close>; both convert values to numbers in the arithmetic of the platform,
  which is a parameter here: \<open>ToUint8\<close> gives the byte of an array element, and
  \<open>Buffer_from_object\<close> the bytes that the block obtains for an object, or what it
  throws.
\<close>

record platform =
  ToUint8 :: "json \<Rightarrow> byte"
  Buffer_from_object :: "(jsstring \<times> json) list \<Rightarrow> exn + byte list"

definition content_bytes :: "platform \<Rightarrow> json option \<Rightarrow> json option \<Rightarrow> exn + byte list" where
  "content_bytes pf c e =
    (case c of
       Some (JStr s) \<Rightarrow>
         (if s \<noteq> [] then
            (let enc = (if truthy e then e else Some (JStr (js ''utf8'')))
             in if enc = Some (JStr (js ''base64'')) then Inr (Buffer_from_base64 s)
                else Inr (Buffer_from_utf8 s))
          else Inr [])
     | Some (JArr vs) \<Rightarrow> Inr (map (ToUint8 pf) vs)
     | Some (JObj ms) \<Rightarrow> Buffer_from_object pf ms
     | _ \<Rightarrow> Inr [])"

definition restore_file_embedded :: "platform \<Rightarrow> jsstring \<Rightarrow> json \<Rightarrow> node \<Rightarrow> node" where
  "restore_file_embedded pf filePath file fs =
    (let fileDir = dirname filePath
     in case (if \<not> existsSync fs fileDir then mkdirSync fileDir fs else (Inr (), fs)) of
          (Inl e, fs1) \<Rightarrow> fs1
        | (Inr u, fs1) \<Rightarrow>
           (case get file (js ''content'') of
              Inl e \<Rightarrow> fs1
            | Inr c \<Rightarrow>
               (case get file (js ''encoding'') of
                  Inl e \<Rightarrow> fs1
                | Inr enc \<Rightarrow>
                   (case content_bytes pf c enc of
                      Inl e \<Rightarrow> fs1
                    | Inr buffer \<Rightarrow> write_or_skip filePath buffer fs1))))"

definition startMarker :: jsstring where
  "startMarker = js ''<FOLDER_SNAP_START>''"

definition endMarker :: jsstring where
  "endMarker = js ''<FOLDER_SNAP_END>''"

text \<open>\<open>!data.metadata || !data.structure\<close>, which throws when \<open>data\<close> is \<open>null\<close>.\<close>

definition missing_metadata_or_structure :: "json \<Rightarrow> exn + bool" where
  "missing_metadata_or_structure data =
    (case get data (js ''metadata'') of
       Inl e \<Rightarrow> Inl e
     | Inr m \<Rightarrow>
        (if \<not> truthy m then Inr True
         else (case get data (js ''structure'') of
                 Inl e \<Rightarrow> Inl e
               | Inr st \<Rightarrow> Inr (\<not> truthy st))))"

definition unpackLegacySnap_try ::
  "platform \<Rightarrow> jsstring \<Rightarrow> jsstring \<Rightarrow> node \<Rightarrow> (exn + json option) \<times> node" where
  "unpackLegacySnap_try pf snapFilePath outputFolder fs =
    (case readTextSync fs snapFilePath of
       Inl e \<Rightarrow> (Inl e, fs)
     | Inr textContent \<Rightarrow>
      (let startIndex = indexOf textContent startMarker;
           endIndex = indexOf textContent endMarker
       in if startIndex = - 1 \<or> endIndex = - 1 then (Inl LegacyMissingMarkers, fs)
          else
           (let jsonContent =
                  trim (substring textContent (startIndex + int (length startMarker)) endIndex)
            in if jsonContent = [] then (Inl LegacyNoJsonData, fs)
               else
                (case catch (parsed jsonContent) (\<lambda>parseError. Inl LegacyParseFailed) of
                   Inl e \<Rightarrow> (Inl e, fs)
                 | Inr data \<Rightarrow>
                    (case missing_metadata_or_structure data of
                       Inl e \<Rightarrow> (Inl e, fs)
                     | Inr True \<Rightarrow> (Inl LegacyInvalidStructure, fs)
                     | Inr False \<Rightarrow>
                        restore_structure (restore_file_embedded pf) outputFolder data fs)))))"

definition unpackLegacySnap ::
  "platform \<Rightarrow> jsstring \<Rightarrow> jsstring \<Rightarrow> node \<Rightarrow> (exn + SnapResult) \<times> node" where
  "unpackLegacySnap pf snapFilePath outputFolder fs =
    (case unpackLegacySnap_try pf snapFilePath outputFolder fs of
       (body, fs') \<Rightarrow>
         (catch (case body of Inl e \<Rightarrow> Inl e | Inr metadata \<Rightarrow> Inr (restored outputFolder metadata))
            (\<lambda>error. Inr (failure error)),
          fs'))"

text \<open>
  \<open>textToFolder\<close>. The inner \<open>catch\<close> turns what \<open>JSON.parse\<close> throws into
  \<open>Invalid snap file format\<close> and throws that, so a snap file that \<open>JSON.parse\<close>
  rejects ends the operation; the legacy reader is called for a file that parsed and
  whose \<open>type\<close> is not \<open>folder-snap-v3\<close>. The outer \<open>catch\<close> returns the result
  of a failure.
\<close>

definition textToFolder_try ::
  "platform \<Rightarrow> jsstring \<Rightarrow> jsstring \<Rightarrow> node \<Rightarrow> (exn + SnapResult) \<times> node" where
  "textToFolder_try pf snapFilePath outputFolder fs =
    (if \<not> existsSync fs snapFilePath then (Inl (SnapFileDoesNotExist snapFilePath), fs)
     else
      (case readTextSync fs snapFilePath of
         Inl e \<Rightarrow> (Inl e, fs)
       | Inr snapContent \<Rightarrow>
          (case catch (parsed snapContent) (\<lambda>error. Inl InvalidSnapFileFormat) of
             Inl e \<Rightarrow> (Inl e, fs)
           | Inr snapData \<Rightarrow>
              (case get snapData (js ''type'') of
                 Inl e \<Rightarrow> (Inl e, fs)
               | Inr t \<Rightarrow>
                  (if t = Some (JStr (js ''folder-snap-v3''))
                   then unpackV3Snap snapFilePath outputFolder snapData fs
                   else unpackLegacySnap pf snapFilePath outputFolder fs)))))"

definition textToFolder ::
  "platform \<Rightarrow> jsstring \<Rightarrow> jsstring \<Rightarrow> node \<Rightarrow> (exn + SnapResult) \<times> node" where
  "textToFolder pf snapFilePath outputFolder fs =
    (case textToFolder_try pf snapFilePath outputFolder fs of
       (body, fs') \<Rightarrow> (catch body (\<lambda>error. Inr (failure error)), fs'))"

text \<open>
  \<open>getFolderStats\<close> has no \<open>try\<close>: what it throws, and what the calls in it throw,
  reaches the caller. \<open>Inl\<close> is that exception.
\<close>

definition getFolderStats ::
  "matcher \<Rightarrow> FolderSnap \<Rightarrow> jsstring \<Rightarrow> node \<Rightarrow> (exn + FolderStats) \<times> FolderSnap" where
  "getFolderStats ignores this folderPath fs =
    (if \<not> existsSync fs folderPath then (Inl (FolderDoesNotExist folderPath), this)
     else
      (case loadGitignore this folderPath fs of
         (Inl e, this1) \<Rightarrow> (Inl e, this1)
       | (Inr u, this1) \<Rightarrow>
          (case readdirSync fs folderPath of
             Inl e \<Rightarrow> (Inl e, this1)
           | Inr items \<Rightarrow>
              (let structure = readFolderStructure ignores this1 [] items [];
                   file_items = filter is_file structure;
                   directory_items = filter is_directory structure
               in (Inr \<lparr>stats_files = length file_items,
                         stats_directories = length directory_items,
                         totalSize = sum_list (map size_bytes file_items)\<rparr>, this1)))))"

text \<open>\<open>validateSnapFile\<close> returns \<open>valid\<close>, and an error or the metadata.\<close>

datatype validation_error =
    SnapFileMissing
  | InvalidJSONFormat
  | SnapDirectoryOrMetadataNotFound
  | MissingStructureMarkers
  | MissingMetadataOrStructure
  | Caught exn

record Validation =
  valid :: bool
  validation_error :: "validation_error option"
  validation_metadata :: "json option"

definition invalid :: "validation_error \<Rightarrow> Validation" where
  "invalid e = \<lparr>valid = False, validation_error = Some e, validation_metadata = None\<rparr>"

definition is_valid :: "json option \<Rightarrow> Validation" where
  "is_valid m = \<lparr>valid = True, validation_error = None, validation_metadata = m\<rparr>"

text \<open>
  The \<open>try\<close> block of \<open>validateSnapFile\<close>, in its two branches: the result it
  returns, or what it throws.
\<close>

definition validate_v3 :: "jsstring \<Rightarrow> json \<Rightarrow> node \<Rightarrow> exn + Validation" where
  "validate_v3 snapFilePath snapData fs =
    (case get snapData (js ''snapDirectory'') of
       Inl e \<Rightarrow> Inl e
     | Inr sd \<Rightarrow>
      (case as_string sd of
         Inl e \<Rightarrow> Inl e
       | Inr snapDirectory \<Rightarrow>
        (let snapDir = path_join [dirname snapFilePath, snapDirectory];
             metadataPath = path_join [snapDir, js ''metadata.json'']
         in if \<not> existsSync fs snapDir \<or> \<not> existsSync fs metadataPath
            then Inr (invalid SnapDirectoryOrMetadataNotFound)
            else
             (case readTextSync fs metadataPath of
                Inl e \<Rightarrow> Inl e
              | Inr metadataContent \<Rightarrow>
                 (case parsed metadataContent of
                    Inl e \<Rightarrow> Inl e
                  | Inr data \<Rightarrow>
                     (case get data (js ''metadata'') of
                        Inl e \<Rightarrow> Inl e
                      | Inr m \<Rightarrow> Inr (is_valid m)))))))"

definition validate_legacy :: "jsstring \<Rightarrow> exn + Validation" where
  "validate_legacy snapContent =
    (let startIndex = indexOf snapContent startMarker;
         endIndex = indexOf snapContent endMarker
     in if startIndex = - 1 \<or> endIndex = - 1 then Inr (invalid MissingStructureMarkers)
        else
         (case parsed
                 (trim (substring snapContent (startIndex + int (length startMarker)) endIndex)) of
            Inl e \<Rightarrow> Inl e
          | Inr data \<Rightarrow>
             (case missing_metadata_or_structure data of
                Inl e \<Rightarrow> Inl e
              | Inr True \<Rightarrow> Inr (invalid MissingMetadataOrStructure)
              | Inr False \<Rightarrow>
                 (case get data (js ''metadata'') of
                    Inl e \<Rightarrow> Inl e
                  | Inr m \<Rightarrow> Inr (is_valid m)))))"

definition validateSnapFile_try :: "jsstring \<Rightarrow> node \<Rightarrow> exn + Validation" where
  "validateSnapFile_try snapFilePath fs =
    (if \<not> existsSync fs snapFilePath then Inr (invalid SnapFileMissing)
     else
      (case readTextSync fs snapFilePath of
         Inl e \<Rightarrow> Inl e
       | Inr snapContent \<Rightarrow>
          (case JSON_parse snapContent of
             None \<Rightarrow> Inr (invalid InvalidJSONFormat)
           | Some snapData \<Rightarrow>
              (case get snapData (js ''type'') of
                 Inl e \<Rightarrow> Inl e
               | Inr t \<Rightarrow>
                  (if t = Some (JStr (js ''folder-snap-v3''))
                   then validate_v3 snapFilePath snapData fs
                   else validate_legacy snapContent)))))"

definition validateSnapFile :: "jsstring \<Rightarrow> node \<Rightarrow> exn + Validation" where
  "validateSnapFile snapFilePath fs =
    catch (validateSnapFile_try snapFilePath fs) (\<lambda>error. Inr (invalid (Caught error)))"

section \<open>The class \<open>FolderSnap\<close> with embedded content (the v2 writer and reader)\<close>

text \<open>
  This version of the class has the same \<open>shouldIgnore\<close> and \<open>readFolderStructure\<close>;
  its default patterns lack \<open>.git/\<close>.
\<close>

definition default_ignores_v2 :: "jsstring list" where
  "default_ignores_v2 =
    [js ''node_modules/'', js ''venv/'', js ''*.log'', js ''.DS_Store'', js ''Thumbs.db'']"

definition loadGitignore_v2 :: "FolderSnap \<Rightarrow> jsstring \<Rightarrow> node \<Rightarrow> (exn + unit) \<times> FolderSnap" where
  "loadGitignore_v2 this folderPath fs =
    (let gitignorePath = path_join [folderPath, gitignoreFile this];
         this1 = this\<lparr>ig := ig this @ default_ignores_v2\<rparr>
     in if existsSync fs gitignorePath then
          (case readTextSync fs gitignorePath of
             Inl e \<Rightarrow> (Inl e, this1)
           | Inr gitignoreContent \<Rightarrow>
               (Inr (), this1\<lparr>ig := ig this1 @ text_lines gitignoreContent\<rparr>))
        else (Inr (), this1))"

text \<open>
  The content of a file that was read: base64 when the buffer holds a zero byte
  (\<open>buffer.includes(0)\<close>), the decoded text otherwise. The pair is \<open>content\<close> and
  \<open>encoding\<close>.
\<close>

definition encode_content :: "byte list \<Rightarrow> jsstring \<times> jsstring" where
  "encode_content buffer =
    (let isBinary = (0 \<in> set buffer)
     in if isBinary then (toString_base64 buffer, js ''base64'')
        else (toString_utf8 buffer, js ''utf8''))"

text \<open>
  The loop \<open>Read file contents and prepare structure\<close>; a file that cannot be read
  gets empty content. \<open>size\<close> is left as the walk set it.
\<close>

fun attach_content :: "jsstring \<Rightarrow> node \<Rightarrow> StructureItem list \<Rightarrow> StructureItem list" where
  "attach_content folder fs [] = []"
| "attach_content folder fs (DirectoryItem p n # items) =
    DirectoryItem p n # attach_content folder fs items"
| "attach_content folder fs (FileItem p n sz ci c e cf # items) =
    (case readFileSync fs (path_join [folder, p]) of
       Inl x \<Rightarrow> FileItem p n sz None (Some []) (Some (js ''utf8'')) cf
     | Inr buffer \<Rightarrow>
         FileItem p n sz None (Some (fst (encode_content buffer)))
           (Some (snd (encode_content buffer))) cf)
    # attach_content folder fs items"

text \<open>
  The serialised item of this version: the destructuring leaves out \<open>contentIndex\<close>
  and \<open>contentFile\<close>.
\<close>

fun strip_v2 :: "StructureItem \<Rightarrow> StructureItem" where
  "strip_v2 (DirectoryItem p n) = DirectoryItem p n"
| "strip_v2 (FileItem p n sz ci c e cf) = FileItem p n sz None c e None"

text \<open>The array \<open>snapData.structure\<close> that \<open>folderToText\<close> serialises.\<close>

definition snap_structure_v2 :: "matcher \<Rightarrow> FolderSnap \<Rightarrow> jsstring \<Rightarrow> node \<Rightarrow> exn + StructureItem list" where
  "snap_structure_v2 ignores this folderPath fs =
    (case readdirSync fs folderPath of
       Inl e \<Rightarrow> Inl e
     | Inr items \<Rightarrow>
         Inr (map strip_v2
               (attach_content folderPath fs
                 (readFolderStructure ignores this [] items []))))"

definition snapData_json :: "SnapMetadata \<Rightarrow> StructureItem list \<Rightarrow> json" where
  "snapData_json metadata structure =
    JObj [(js ''metadata'', metadata_json metadata),
          (js ''structure'', JArr (map item_json structure))]"

definition folderToText_v2_try ::
  "matcher \<Rightarrow> jsstring \<Rightarrow> FolderSnap \<Rightarrow> jsstring \<Rightarrow> jsstring \<Rightarrow> node \<Rightarrow>
   (exn + SnapMetadata) \<times> FolderSnap \<times> node" where
  "folderToText_v2_try ignores now this folderPath outputPath fs =
    (if \<not> existsSync fs folderPath then
       (Inl (SourceFolderDoesNotExist folderPath), this, fs)
     else if isDirectory fs folderPath \<noteq> Inr True then
       (Inl (SourcePathIsNotADirectory folderPath), this, fs)
     else
       (case loadGitignore_v2 this folderPath fs of
          (Inl e, this1) \<Rightarrow> (Inl e, this1, fs)
        | (Inr u, this1) \<Rightarrow>
           (case readdirSync fs folderPath of
              Inl e \<Rightarrow> (Inl e, this1, fs)
            | Inr items \<Rightarrow>
               (let walked = readFolderStructure ignores this1 [] items [];
                    metadata = snap_metadata now folderPath walked;
                    outputDir = dirname outputPath
                in case (if \<not> existsSync fs outputDir then mkdirSync outputDir fs
                         else (Inr (), fs)) of
                     (Inl e, fs1) \<Rightarrow> (Inl e, this1, fs1)
                   | (Inr u, fs1) \<Rightarrow>
                      (let structure = map strip_v2 (attach_content folderPath fs1 walked)
                       in case writeTextSync outputPath
                                 (JSON_stringify (snapData_json metadata structure)) fs1 of
                            Inl e \<Rightarrow> (Inl e, this1, fs1)
                          | Inr fs2 \<Rightarrow> (Inr metadata, this1, fs2))))))"

definition folderToText_v2 ::
  "matcher \<Rightarrow> jsstring \<Rightarrow> FolderSnap \<Rightarrow> jsstring \<Rightarrow> jsstring \<Rightarrow> node \<Rightarrow>
   (exn + SnapResult) \<times> FolderSnap \<times> node" where
  "folderToText_v2 ignores now this folderPath outputPath fs =
    (case folderToText_v2_try ignores now this folderPath outputPath fs of
       (body, this', fs') \<Rightarrow>
         (catch (case body of Inl e \<Rightarrow> Inl e | Inr metadata \<Rightarrow> Inr (packed outputPath metadata))
            (\<lambda>error. Inr (failure error)),
          this', fs'))"

definition textToFolder_v2_try ::
  "platform \<Rightarrow> jsstring \<Rightarrow> jsstring \<Rightarrow> node \<Rightarrow> (exn + json option) \<times> node" where
  "textToFolder_v2_try pf snapFilePath outputFolder fs =
    (if \<not> existsSync fs snapFilePath then (Inl (SnapFileDoesNotExist snapFilePath), fs)
     else
      (case readTextSync fs snapFilePath of
         Inl e \<Rightarrow> (Inl e, fs)
       | Inr snapContent \<Rightarrow>
          (case catch (parsed snapContent) (\<lambda>error. Inl InvalidSnapFileFormat) of
             Inl e \<Rightarrow> (Inl e, fs)
           | Inr snapData \<Rightarrow>
              (case missing_metadata_or_structure snapData of
                 Inl e \<Rightarrow> (Inl e, fs)
               | Inr True \<Rightarrow> (Inl InvalidSnapFileStructure, fs)
               | Inr False \<Rightarrow>
                   restore_structure (restore_file_embedded pf) outputFolder snapData fs))))"

definition textToFolder_v2 ::
  "platform \<Rightarrow> jsstring \<Rightarrow> jsstring \<Rightarrow> node \<Rightarrow> (exn + SnapResult) \<times> node" where
  "textToFolder_v2 pf snapFilePath outputFolder fs =
    (case textToFolder_v2_try pf snapFilePath outputFolder fs of
       (body, fs') \<Rightarrow>
         (catch (case body of Inl e \<Rightarrow> Inl e | Inr metadata \<Rightarrow> Inr (restored outputFolder metadata))
            (\<lambda>error. Inr (failure error)),
          fs'))"

section \<open>A stand-in for the \<open>ignore\<close> package\<close>

text \<open>
  The package is not part of the repository; the functions of the class take its
  matcher as a parameter. For running the code on concrete trees, this matcher follows
  the package in the rules that the development uses. A line that is empty, blank or
  starts with \<open>#\<close> is no rule. A rule that starts with \<open>!\<close> takes back an earlier
  match. Upper and lower case are the same. A rule that ends with the separator matches
  directories only, that is paths written with a separator at their end. A rule with a
  separator before its end is matched against the whole path, any other rule against
  the last segment; \<open>*\<close> stands for any text within a segment and \<open>?\<close> for one
  character. A path is ignored when a directory above it is ignored, and otherwise when
  the last rule that matches it is no negation. A rule with a backslash, a bracket or
  \<open>**\<close> matches nothing here. Paths are relative and without \<open>.\<close> segments, as the
  walk produces them.
\<close>

definition lower :: "nat \<Rightarrow> nat" where
  "lower c = (if 65 \<le> c \<and> c \<le> 90 then c + 32 else c)"

fun glob :: "jsstring \<Rightarrow> jsstring \<Rightarrow> bool" where
  "glob [] t = (t = [])"
| "glob (p # ps) [] = (p = 42 \<and> glob ps [])"
| "glob (p # ps) (c # cs) =
    (if p = 42 then glob ps (c # cs) \<or> glob (p # ps) cs
     else (p = 63 \<or> lower p = lower c) \<and> glob ps cs)"

definition rule_negative :: "jsstring \<Rightarrow> bool" where
  "rule_negative rule \<longleftrightarrow> rule \<noteq> [] \<and> hd rule = 33"

definition rule_body :: "jsstring \<Rightarrow> jsstring" where
  "rule_body rule =
    rev (dropWhile js_white_space (rev (if rule_negative rule then tl rule else rule)))"

definition rule_applies :: "jsstring \<Rightarrow> bool" where
  "rule_applies rule \<longleftrightarrow>
     rule \<noteq> [] \<and> \<not> list_all js_white_space rule \<and> hd rule \<noteq> 35 \<and>
     92 \<notin> set rule \<and> 91 \<notin> set rule \<and> indexOf rule (js ''**'') = - 1 \<and>
     filter (\<lambda>s. s \<noteq> []) (split_at 47 (rule_body rule)) \<noteq> []"

definition rule_matches :: "jsstring \<Rightarrow> jsstring \<Rightarrow> bool" where
  "rule_matches rule p =
    (let body = rule_body rule;
         directories_only = (last body = 47);
         core = (if directories_only then butlast body else body);
         pattern = filter (\<lambda>s. s \<noteq> []) (split_at 47 core);
         segments = filter (\<lambda>s. s \<noteq> []) (split_at 47 p)
     in if directories_only \<and> last p \<noteq> 47 then False
        else if 47 \<in> set core then list_all2 glob pattern segments
        else glob (last pattern) (last segments))"

text \<open>The test of one path against the rules in their order.\<close>

definition test_one :: "jsstring list \<Rightarrow> jsstring \<Rightarrow> bool" where
  "test_one rules p =
    foldl (\<lambda>ignored rule.
             if rule_applies rule \<and> rule_matches rule p then \<not> rule_negative rule else ignored)
      False rules"

text \<open>The directories above the path are tested first, from the outermost.\<close>

fun ignored_from :: "jsstring list \<Rightarrow> jsstring \<Rightarrow> jsstring list \<Rightarrow> bool" where
  "ignored_from rules parent [] = False"
| "ignored_from rules parent [s] = test_one rules (parent @ s)"
| "ignored_from rules parent (s # t # ss) =
    (test_one rules (parent @ s @ js ''/'') \<or>
     ignored_from rules (parent @ s @ js ''/'') (t # ss))"

definition ignore_package :: matcher where
  "ignore_package rules p = ignored_from rules [] (split_at 47 p)"

section \<open>Well-formed trees and the files of a tree\<close>

text \<open>
  In a directory listing the names are distinct, not empty and free of the separator.
\<close>

definition valid_name :: "jsstring \<Rightarrow> bool" where
  "valid_name n \<longleftrightarrow> n \<noteq> [] \<and> 47 \<notin> set n"

fun wf_node :: "node \<Rightarrow> bool" where
  "wf_node (File buf) = True"
| "wf_node (Dir items) =
    (distinct (map fst items) \<and> list_all (\<lambda>item. valid_name (fst item) \<and> wf_node (snd item)) items)"

definition wf_listing :: "(jsstring \<times> node) list \<Rightarrow> bool" where
  "wf_listing items = wf_node (Dir items)"

text \<open>
  \<open>below d p\<close>: the path \<open>p\<close> has the path \<open>d\<close> of a directory, with the separator,
  as a prefix. \<open>in_child rel n p\<close>: \<open>p\<close> is the path of the child \<open>n\<close> of the folder
  \<open>rel\<close>, or lies below that child.
\<close>

definition below :: "jsstring \<Rightarrow> jsstring \<Rightarrow> bool" where
  "below d p \<longleftrightarrow> startsWith p (d @ js ''/'')"

definition in_child :: "jsstring \<Rightarrow> jsstring \<Rightarrow> jsstring \<Rightarrow> bool" where
  "in_child rel n p \<longleftrightarrow> p = relative_item rel n \<or> below (relative_item rel n) p"

text \<open>An entry \<open>x\<close> may stand before an entry \<open>y\<close> unless \<open>y\<close> is a directory above \<open>x\<close>.\<close>

definition may_precede :: "StructureItem \<Rightarrow> StructureItem \<Rightarrow> bool" where
  "may_precede x y \<longleftrightarrow> (if is_directory y then \<not> below (path y) (path x) else True)"

text \<open>
  The files below a folder, each with its path relative to the base of the walk and its
  bytes, whether ignored or not.
\<close>

fun files_of :: "jsstring \<Rightarrow> (jsstring \<times> node) list \<Rightarrow> (jsstring \<times> byte list) list" where
  "files_of rel [] = []"
| "files_of rel ((item, File buf) # items) = (relative_item rel item, buf) # files_of rel items"
| "files_of rel ((item, Dir sub) # items) =
    files_of (relative_item rel item) sub @ files_of rel items"

text \<open>The lines that \<open>loadGitignore\<close> reads from the rule file of a folder, if any.\<close>

definition ignore_file_rules :: "FolderSnap \<Rightarrow> jsstring \<Rightarrow> node \<Rightarrow> jsstring list" where
  "ignore_file_rules this folderPath fs =
    (case readTextSync fs (path_join [folderPath, gitignoreFile this]) of
       Inl e \<Rightarrow> []
     | Inr gitignoreContent \<Rightarrow> text_lines gitignoreContent)"

section \<open>Example file systems\<close>

text \<open>
  A project with the files \<open>a/b/x\<close> and \<open>a_b/x\<close>, of one byte each.
\<close>

definition project_tree :: "(jsstring \<times> node) list" where
  "project_tree =
    [(js ''a'', Dir [(js ''b'', Dir [(js ''x'', File [1])])]),
     (js ''a_b'', Dir [(js ''x'', File [2])])]"

definition project_fs :: node where
  "project_fs = Dir [(js ''proj'', Dir project_tree)]"

text \<open>What the walk of this project returns (lemma \<open>walk_project\<close> below).\<close>

definition project_walk :: "StructureItem list" where
  "project_walk =
    [DirectoryItem (js ''a'') (js ''a''), DirectoryItem (js ''a/b'') (js ''b''),
     FileItem (js ''a/b/x'') (js ''x'') 1 (Some 0) None None None,
     DirectoryItem (js ''a_b'') (js ''a_b''),
     FileItem (js ''a_b/x'') (js ''x'') 1 (Some 0) None None None]"

text \<open>
  A folder \<open>first\<close> whose rule file excludes \<open>secret.txt\<close>, and a folder \<open>second\<close>
  without a rule file that holds a file of that name.
\<close>

definition two_folders_fs :: node where
  "two_folders_fs =
    Dir [(js ''first'', Dir [(js ''.gitignore'', File (Buffer_from_utf8 (js ''secret.txt'')))]),
         (js ''second'', Dir [(js ''secret.txt'', File [104, 105])])]"

text \<open>
  An archive in the legacy format, as the legacy writer prints it for an empty folder:
  the comment lines, then the JSON document between the two marker lines.
\<close>

definition legacy_json_text :: jsstring where
  "legacy_json_text =
    js ''{\<newline>  \"metadata\": {\<newline>    \"timestamp\": \"T\",\<newline>    \"sourceFolder\": \"p\",\<newline>    \"totalFiles\": 0,\<newline>    \"totalDirectories\": 0\<newline>  },\<newline>  \"structure\": []\<newline>}''"

definition legacy_archive_text :: jsstring where
  "legacy_archive_text =
    js ''# Folder Snap Export\<newline># Generated on: T\<newline># Source: p\<newline># Files: 0, Directories: 0\<newline>\<newline><FOLDER_SNAP_START>\<newline>'' @
    legacy_json_text @
    js ''\<newline><FOLDER_SNAP_END>\<newline>''"

definition legacy_fs :: node where
  "legacy_fs = Dir [(js ''legacy.snap'', File (Buffer_from_utf8 legacy_archive_text))]"

text \<open>An archive with embedded content for an empty folder: JSON without markers.\<close>

definition flat_json_text :: jsstring where
  "flat_json_text = js ''{\"metadata\": {\"timestamp\": \"T\"}, \"structure\": []}''"

definition flat_fs :: node where
  "flat_fs = Dir [(js ''flat.snap'', File (Buffer_from_utf8 flat_json_text))]"

text \<open>
  The platform of the concrete runs. None of them has content that is an array or an
  object, so none of them consults it.
\<close>

definition sample_platform :: platform where
  "sample_platform = \<lparr>ToUint8 = (\<lambda>v. 0), Buffer_from_object = (\<lambda>ms. Inr [])\<rparr>"

text \<open>A file that is no JSON document and holds no marker.\<close>

definition garbage_fs :: node where
  "garbage_fs = Dir [(js ''bad.snap'', File (Buffer_from_utf8 (js ''not an archive'')))]"

section \<open>Running the model on concrete inputs\<close>

lemma replicate_numeral: "replicate (numeral k) x = x # replicate (pred_numeral k) x"
  by (simp add: numeral_eq_Suc)

lemmas parse_numeral =
  parse_value.simps(2)[of "pred_numeral k" for k, folded numeral_eq_Suc]
  parse_elements.simps(2)[of "pred_numeral k" for k, folded numeral_eq_Suc]
  parse_members.simps(2)[of "pred_numeral k" for k, folded numeral_eq_Suc]

lemmas path_eval = path_join_def path_normalize_def dirname_def basename_def relative_item_def
  startsWith_def endsWith_def Let_def

lemmas fs_eval = existsSync_def isDirectory_def readdirSync_def readFileSync_def readTextSync_def
  writeTextSync_def write_or_skip_def statSync_def resolve_def writeFileSync_def mkdirSync_def
  rmSync_def

lemmas parse_eval = JSON_parse_def skip_ws_def json_ws_def parse_number_def parse_int_part_def
  parse_frac_part_def parse_exp_part_def is_digit_def unescape_def hex4_def hex_val_def
  parse_numeral

lemmas ignore_eval = shouldIgnore_def ignore_package_def default_ignores_def rule_matches_def
  rule_applies_def rule_body_def rule_negative_def test_one_def lower_def js_white_space_def
  indexOf_def constructor_def

text \<open>A text of ASCII characters is read back as it was written.\<close>

lemma utf8_encode_ascii: "list_all (\<lambda>c. c < 128) s \<Longrightarrow> utf8_encode s = s"
  by (induction s) auto

lemma utf8_decode_ascii: "list_all (\<lambda>c. c < 128) s \<Longrightarrow> utf8_decode s = s"
  by (induction s) auto

lemma unat_of_nat_ascii:
  "list_all (\<lambda>c. c < 128) s \<Longrightarrow> map unat (map of_nat s :: byte list) = s"
  by (induction s) (auto simp: unat_of_nat)

lemma toString_from_ascii:
  assumes "list_all (\<lambda>c. c < 128) s"
  shows "toString_utf8 (Buffer_from_utf8 s) = s"
proof -
  have "toString_utf8 (Buffer_from_utf8 s) = utf8_decode (map unat (map of_nat s :: byte list))"
    using assms by (simp only: toString_utf8_def Buffer_from_utf8_def utf8_encode_ascii)
  also have "\<dots> = utf8_decode s"
    using assms by (simp only: unat_of_nat_ascii)
  also have "\<dots> = s"
    using assms by (rule utf8_decode_ascii)
  finally show ?thesis .
qed

subsection \<open>The example project\<close>

lemma project_exists: "existsSync project_fs (js ''proj'')"
  by (simp add: project_fs_def js_def path_eval fs_eval)

lemma project_isDirectory: "isDirectory project_fs (js ''proj'') = Inr True"
  by (simp add: project_fs_def js_def path_eval fs_eval)

lemma project_readdir: "readdirSync project_fs (js ''proj'') = Inr project_tree"
  by (simp add: project_fs_def js_def path_eval fs_eval)

lemma loadGitignore_project:
  "loadGitignore (constructor None None) (js ''proj'') project_fs =
     (Inr (), (constructor None None)\<lparr>ig := default_ignores\<rparr>)"
  by (simp add: loadGitignore_def project_fs_def project_tree_def constructor_def js_def
      path_eval fs_eval)

lemma walk_project:
  "readFolderStructure ignore_package ((constructor None None)\<lparr>ig := default_ignores\<rparr>) []
     project_tree [] = project_walk"
  by (simp add: project_tree_def ignore_eval js_def path_eval project_walk_def)

lemma make_output_dirs_backup:
  "make_output_dirs (js ''backup'') project_fs =
     (Inr (), Dir [(js ''proj'', Dir project_tree), (js ''backup'', Dir [(js ''content'', Dir [])])])"
  by (simp add: make_output_dirs_def snapDir_of_def project_fs_def js_def path_eval fs_eval)

lemma write_snap_backup:
  "fst (write_snap metadata project_walk (js ''proj'') (js ''backup'')
     (Dir [(js ''proj'', Dir project_tree), (js ''backup'', Dir [(js ''content'', Dir [])])])) =
   Inl (SystemError EISDIR)"
  by (simp add: write_snap_def snapDir_of_def project_walk_def generateContentFilename_def
      safe_unit_def show_nat_def digits.simps project_tree_def js_def path_eval fs_eval)

section \<open>The snap directory of an output path\<close>

lemma snapDir_of_snap: "snapDir_of (p @ js ''.snap'') = p @ js ''_snap''"
  by (simp add: snapDir_of_def endsWith_def js_def)

lemma snapDir_of_other: "\<not> endsWith p (js ''.snap'') \<Longrightarrow> snapDir_of p = p"
  by (simp add: snapDir_of_def)

text \<open>
  Claim C8: for every output path, the snap directory is named by stripping a trailing
  \<open>.snap\<close> and appending \<open>_snap\<close>, also when the path does not end in \<open>.snap\<close>.
  The code replaces the suffix only where it is present (\<open>snapDir_of_snap\<close>); for the
  output path \<open>backup\<close> the snap directory is \<open>backup\<close> itself, not
  \<open>backup_snap\<close>, so the writer makes a directory at the output path and then fails
  to write the snap file there.
\<close>

theorem snapDir_of_plain_output:
  "snapDir_of (js ''backup'') = js ''backup'' \<and>
   fst (folderToText ignore_package now (constructor None None) (js ''proj'') (js ''backup'')
          project_fs) = Inr (failure (SystemError EISDIR))"
proof
  show "snapDir_of (js ''backup'') = js ''backup''"
    by (simp add: snapDir_of_def endsWith_def js_def)
  have "fst (folderToText_try ignore_package now (constructor None None) (js ''proj'')
          (js ''backup'') project_fs) = Inl (SystemError EISDIR)"
    using write_snap_backup[of "snap_metadata now (js ''proj'') project_walk"]
    by (simp add: folderToText_try_def project_exists project_isDirectory
        loadGitignore_project project_readdir walk_project make_output_dirs_backup
        case_prod_beta split: sum.splits)
  then show "fst (folderToText ignore_package now (constructor None None) (js ''proj'')
          (js ''backup'') project_fs) = Inr (failure (SystemError EISDIR))"
    by (simp add: folderToText_def catch_def case_prod_beta split: sum.splits)
qed

section \<open>Sidecar file names\<close>

text \<open>
  Claim C6: the sidecar file names of one archive are pairwise distinct; two files of
  the same name in different directories never get the same sidecar name. In the
  example project the files \<open>a/b/x\<close> and \<open>a_b/x\<close> both get the name
  \<open>content_0_a_b_x.bin\<close>: the two paths are sanitised to the same text, and each
  file is the first of the array of its own recursive call, so both have index 0.
\<close>

theorem sidecar_names_collide:
  "map (\<lambda>f. generateContentFilename (path f) (contentIndex f))
     (filter is_file
       (readFolderStructure ignore_package
          (snd (loadGitignore (constructor None None) (js ''proj'') project_fs)) []
          project_tree [])) =
   [js ''content_0_a_b_x.bin'', js ''content_0_a_b_x.bin'']"
  unfolding loadGitignore_project snd_conv walk_project
  by (simp add: project_walk_def generateContentFilename_def safe_unit_def show_nat_def
      digits.simps js_def)

section \<open>Results and exceptions of the public operations\<close>

lemma unpackV3Snap_result:
  "\<exists>r. fst (unpackV3Snap snapFilePath outputFolder snapData fs) = Inr r \<and>
       (success r \<longleftrightarrow> error r = None)"
  by (simp add: unpackV3Snap_def catch_def failure_def restored_def split: prod.splits sum.splits)

lemma unpackLegacySnap_result:
  "\<exists>r. fst (unpackLegacySnap pf snapFilePath outputFolder fs) = Inr r \<and>
       (success r \<longleftrightarrow> error r = None)"
  by (simp add: unpackLegacySnap_def catch_def failure_def restored_def
      split: prod.splits sum.splits)

lemma folderToText_result:
  "\<exists>r. fst (folderToText ignores now this folderPath outputPath fs) = Inr r \<and>
       (success r \<longleftrightarrow> error r = None)"
  by (simp add: folderToText_def catch_def failure_def packed_def split: prod.splits sum.splits)

lemma textToFolder_try_result:
  assumes "fst (textToFolder_try pf snapFilePath outputFolder fs) = Inr r"
  shows "success r \<longleftrightarrow> error r = None"
proof -
  from assms have "fst (unpackV3Snap snapFilePath outputFolder
        (projr (parsed (projr (readTextSync fs snapFilePath)))) fs) = Inr r \<or>
      fst (unpackLegacySnap pf snapFilePath outputFolder fs) = Inr r"
    by (auto simp: textToFolder_try_def catch_def split: if_splits sum.splits)
  then show ?thesis
    using unpackV3Snap_result unpackLegacySnap_result by (metis sum.inject(2))
qed

lemma textToFolder_result:
  "\<exists>r. fst (textToFolder pf snapFilePath outputFolder fs) = Inr r \<and>
       (success r \<longleftrightarrow> error r = None)"
proof (cases "fst (textToFolder_try pf snapFilePath outputFolder fs)")
  case (Inl e)
  then show ?thesis
    by (simp add: textToFolder_def catch_def failure_def case_prod_beta)
next
  case (Inr r)
  with textToFolder_try_result[OF Inr] show ?thesis
    by (simp add: textToFolder_def catch_def case_prod_beta)
qed

lemma validate_v3_result:
  "validate_v3 snapFilePath snapData fs = Inr v \<Longrightarrow> (valid v \<longleftrightarrow> validation_error v = None)"
  by (auto simp: validate_v3_def invalid_def is_valid_def Let_def
      split: sum.splits option.splits if_splits)

lemma validate_legacy_result:
  "validate_legacy snapContent = Inr v \<Longrightarrow> (valid v \<longleftrightarrow> validation_error v = None)"
  by (auto simp: validate_legacy_def invalid_def is_valid_def Let_def
      split: sum.splits option.splits bool.splits if_splits)

lemma validateSnapFile_try_result:
  "validateSnapFile_try snapFilePath fs = Inr v \<Longrightarrow> (valid v \<longleftrightarrow> validation_error v = None)"
  by (auto simp: validateSnapFile_try_def invalid_def validate_v3_result validate_legacy_result
      split: sum.splits option.splits if_splits)

lemma validateSnapFile_result:
  "\<exists>v. validateSnapFile snapFilePath fs = Inr v \<and> (valid v \<longleftrightarrow> validation_error v = None)"
proof (cases "validateSnapFile_try snapFilePath fs")
  case (Inl e)
  then show ?thesis by (simp add: validateSnapFile_def catch_def invalid_def)
next
  case (Inr v)
  with validateSnapFile_try_result[OF Inr] show ?thesis
    by (simp add: validateSnapFile_def catch_def)
qed

lemma readdirSync_throws:
  "existsSync fs p \<Longrightarrow>
   readdirSync fs p = Inl e \<longleftrightarrow> isDirectory fs p = Inr False \<and> e = SystemError ENOTDIR"
  by (auto simp: existsSync_def readdirSync_def isDirectory_def split: sum.splits node.splits)

lemma loadGitignore_throws:
  "fst (loadGitignore this folderPath fs) = Inl e \<longleftrightarrow>
   isDirectory fs (path_join [folderPath, gitignoreFile this]) = Inr True \<and> e = SystemError EISDIR"
  by (auto simp: loadGitignore_def Let_def existsSync_def readTextSync_def readFileSync_def
      isDirectory_def split: sum.splits node.splits)

lemma getFolderStats_throws_iff:
  "fst (getFolderStats ignores this folderPath fs) = Inl e \<longleftrightarrow>
     (\<not> existsSync fs folderPath \<and> e = FolderDoesNotExist folderPath) \<or>
     (existsSync fs folderPath \<and>
      isDirectory fs (path_join [folderPath, gitignoreFile this]) = Inr True \<and>
      e = SystemError EISDIR) \<or>
     (existsSync fs folderPath \<and>
      isDirectory fs (path_join [folderPath, gitignoreFile this]) \<noteq> Inr True \<and>
      isDirectory fs folderPath = Inr False \<and> e = SystemError ENOTDIR)"
proof (cases "existsSync fs folderPath")
  case False
  then show ?thesis by (auto simp: getFolderStats_def)
next
  case True
  show ?thesis
  proof (cases "fst (loadGitignore this folderPath fs)")
    case (Inl x)
    with loadGitignore_throws[of this folderPath fs x]
    have "isDirectory fs (path_join [folderPath, gitignoreFile this]) = Inr True"
      and "x = SystemError EISDIR" by simp_all
    with True Inl show ?thesis
      by (auto simp: getFolderStats_def case_prod_beta split: sum.splits)
  next
    case (Inr u)
    with loadGitignore_throws[of this folderPath fs "SystemError EISDIR"]
    have nd: "isDirectory fs (path_join [folderPath, gitignoreFile this]) \<noteq> Inr True" by auto
    show ?thesis
      using True Inr nd readdirSync_throws[OF True, of e]
      by (auto simp: getFolderStats_def case_prod_beta Let_def split: sum.splits)
  qed
qed

text \<open>
  Claim C7: every public operation (\<open>folderToText\<close>, \<open>textToFolder\<close>,
  \<open>getFolderStats\<close>, \<open>validateSnapFile\<close>) returns a structured result and never
  lets an exception pass. As amended: \<open>folderToText\<close>, \<open>textToFolder\<close> and
  \<open>validateSnapFile\<close> return for every input, they never throw, and in the result
  an error is present exactly when the operation did not succeed. \<open>getFolderStats\<close>
  has no \<open>try\<close> and throws to its caller in three cases, and only in these:
  \<open>Folder does not exist\<close> when the path does not exist; the error \<open>EISDIR\<close> of
  \<open>readFileSync\<close> when the path of the rule file is a directory; the error
  \<open>ENOTDIR\<close> of \<open>readdirSync\<close> when the path is not a directory.
\<close>

theorem operations_return_or_throw:
  "(\<exists>r. fst (folderToText ignores now this folderPath outputPath fs) = Inr r \<and>
        (success r \<longleftrightarrow> error r = None)) \<and>
   (\<exists>r. fst (textToFolder pf snapFilePath outputFolder fs) = Inr r \<and>
        (success r \<longleftrightarrow> error r = None)) \<and>
   (\<exists>v. validateSnapFile snapFilePath fs = Inr v \<and> (valid v \<longleftrightarrow> validation_error v = None)) \<and>
   (\<forall>e. fst (getFolderStats ignores this folderPath fs) = Inl e \<longleftrightarrow>
      (\<not> existsSync fs folderPath \<and> e = FolderDoesNotExist folderPath) \<or>
      (existsSync fs folderPath \<and>
       isDirectory fs (path_join [folderPath, gitignoreFile this]) = Inr True \<and>
       e = SystemError EISDIR) \<or>
      (existsSync fs folderPath \<and>
       isDirectory fs (path_join [folderPath, gitignoreFile this]) \<noteq> Inr True \<and>
       isDirectory fs folderPath = Inr False \<and> e = SystemError ENOTDIR))"
  using folderToText_result textToFolder_result validateSnapFile_result getFolderStats_throws_iff
  by blast

lemma file_path_facts:
  "existsSync project_fs (js ''proj/a/b/x'') \<and>
   isDirectory project_fs (js ''proj/a/b/x'') = Inr False \<and>
   isDirectory project_fs (path_join [js ''proj/a/b/x'', js ''.gitignore'']) \<noteq> Inr True"
  by (simp add: project_fs_def project_tree_def js_def path_eval fs_eval)

theorem operations_return_or_throw_witness:
  "fst (folderToText ignore_package (js ''T'') (constructor None None) (js ''missing'')
       (js ''out.snap'') project_fs) = Inr (failure (SourceFolderDoesNotExist (js ''missing''))) \<and>
   fst (textToFolder sample_platform (js ''missing.snap'') (js ''out'') project_fs) =
     Inr (failure (SnapFileDoesNotExist (js ''missing.snap''))) \<and>
   validateSnapFile (js ''missing.snap'') project_fs = Inr (invalid SnapFileMissing) \<and>
   existsSync project_fs (js ''proj/a/b/x'') \<and>
   isDirectory project_fs (js ''proj/a/b/x'') = Inr False \<and>
   fst (getFolderStats ignore_package (constructor None None) (js ''proj/a/b/x'') project_fs) =
     Inl (SystemError ENOTDIR)"
proof -
  have a: "fst (folderToText ignore_package (js ''T'') (constructor None None) (js ''missing'')
       (js ''out.snap'') project_fs) = Inr (failure (SourceFolderDoesNotExist (js ''missing'')))"
    by (simp add: folderToText_def folderToText_try_def catch_def project_fs_def js_def
        path_eval fs_eval)
  have b: "fst (textToFolder sample_platform (js ''missing.snap'') (js ''out'') project_fs) =
     Inr (failure (SnapFileDoesNotExist (js ''missing.snap'')))"
    by (simp add: textToFolder_def textToFolder_try_def catch_def project_fs_def js_def
        path_eval fs_eval)
  have c: "validateSnapFile (js ''missing.snap'') project_fs = Inr (invalid SnapFileMissing)"
    by (simp add: validateSnapFile_def validateSnapFile_try_def catch_def project_fs_def js_def
        path_eval fs_eval)
  have g: "gitignoreFile (constructor None None) = js ''.gitignore''"
    by (simp add: constructor_def)
  from operations_return_or_throw[of ignore_package "js ''T''" "constructor None None"
      "js ''proj/a/b/x''" "js ''out.snap''" project_fs sample_platform "js ''missing.snap''" "js ''out''"]
  have "fst (getFolderStats ignore_package (constructor None None) (js ''proj/a/b/x'') project_fs) =
     Inl (SystemError ENOTDIR)"
    using file_path_facts unfolding g by blast
  with a b c file_path_facts show ?thesis by simp
qed

text \<open>
  The claim as stated fails: for a path that is a file, the error \<open>ENOTDIR\<close> of
  \<open>readdirSync\<close> leaves \<open>getFolderStats\<close> as it was thrown.
\<close>

theorem getFolderStats_throws:
  "fst (getFolderStats ignore_package (constructor None None) (js ''proj/a/b/x'') project_fs) =
   Inl (SystemError ENOTDIR)"
  by (simp add: getFolderStats_def loadGitignore_def constructor_def project_fs_def
      project_tree_def js_def path_eval fs_eval)

section \<open>The rule set of the instance\<close>

lemma loadGitignore_rules:
  "ig (snd (loadGitignore this folderPath fs)) =
   ig this @ default_ignores @ ignore_file_rules this folderPath fs"
  by (auto simp: loadGitignore_def ignore_file_rules_def Let_def existsSync_def readTextSync_def
      readFileSync_def split: sum.splits option.splits node.splits)

lemma getFolderStats_rules:
  "ig (snd (getFolderStats ignores this folderPath fs)) =
   (if existsSync fs folderPath then ig (snd (loadGitignore this folderPath fs))
    else ig this)"
  by (simp add: getFolderStats_def Let_def split: prod.splits sum.splits)

lemma folderToText_rules:
  "ig (fst (snd (folderToText ignores now this folderPath outputPath fs))) =
   (if existsSync fs folderPath \<and> isDirectory fs folderPath = Inr True
    then ig (snd (loadGitignore this folderPath fs)) else ig this)"
  by (simp add: folderToText_def folderToText_try_def Let_def split: prod.splits sum.splits)

text \<open>
  Claim C5: the rule set is rebuilt for each top-level operation, so \<open>shouldIgnore\<close>
  depends only on the built-in rules and the rule file of the current folder. As
  amended: the rule set is created empty with the instance and nothing empties it
  again; \<open>loadGitignore\<close> appends the built-in rules and the lines of the rule file of
  the folder to the rules already there, and \<open>getFolderStats\<close> and \<open>folderToText\<close>
  leave the instance with the rules of that call whenever they reach it.
\<close>

theorem ignore_rules_accumulate:
  "ig (constructor gitignoreFile_option includeHidden_option) = [] \<and>
   ig (snd (loadGitignore this folderPath fs)) =
     ig this @ default_ignores @ ignore_file_rules this folderPath fs \<and>
   ig (snd (getFolderStats ignores this folderPath fs)) =
     (if existsSync fs folderPath then ig (snd (loadGitignore this folderPath fs))
      else ig this) \<and>
   ig (fst (snd (folderToText ignores now this folderPath outputPath fs))) =
     (if existsSync fs folderPath \<and> isDirectory fs folderPath = Inr True
      then ig (snd (loadGitignore this folderPath fs)) else ig this)"
  by (simp only: loadGitignore_rules getFolderStats_rules folderToText_rules)
     (simp add: constructor_def)

lemma stats_first:
  "snd (getFolderStats ignore_package (constructor None None) (js ''first'') two_folders_fs) =
   (constructor None None)\<lparr>ig := default_ignores @ [js ''secret.txt'']\<rparr>"
  by (simp add: getFolderStats_def loadGitignore_def two_folders_fs_def constructor_def js_def path_eval fs_eval
      toString_utf8_def Buffer_from_utf8_def text_lines_def unat_of_nat)

lemma stats_second_after_first:
  "getFolderStats ignore_package ((constructor None None)\<lparr>ig := default_ignores @ [js ''secret.txt'']\<rparr>)
     (js ''second'') two_folders_fs =
   (Inr \<lparr>stats_files = 0, stats_directories = 0, totalSize = 0\<rparr>,
    (constructor None None)\<lparr>ig := default_ignores @ [js ''secret.txt''] @ default_ignores\<rparr>)"
  by (simp add: getFolderStats_def loadGitignore_def two_folders_fs_def js_def path_eval fs_eval
      ignore_eval)

lemma stats_second_fresh:
  "getFolderStats ignore_package (constructor None None) (js ''second'') two_folders_fs =
   (Inr \<lparr>stats_files = 1, stats_directories = 0, totalSize = 2\<rparr>,
    (constructor None None)\<lparr>ig := default_ignores\<rparr>)"
  by (simp add: getFolderStats_def loadGitignore_def two_folders_fs_def js_def path_eval fs_eval
      ignore_eval)

theorem ignore_rules_accumulate_witness:
  "ig (snd (getFolderStats ignore_package
             (snd (getFolderStats ignore_package (constructor None None) (js ''first'') two_folders_fs))
             (js ''second'') two_folders_fs)) =
   default_ignores @ [js ''secret.txt''] @ default_ignores"
  using ignore_rules_accumulate[of None None
      "snd (getFolderStats ignore_package (constructor None None) (js ''first'') two_folders_fs)"
      "js ''second''" two_folders_fs ignore_package "js ''T''" "js ''out.snap''"]
  unfolding stats_first
  by (simp add: ignore_file_rules_def two_folders_fs_def js_def path_eval fs_eval constructor_def)

text \<open>
  The claim as stated fails: after the statistics of the folder \<open>first\<close>, whose rule
  file excludes \<open>secret.txt\<close>, the same instance does not count the file
  \<open>secret.txt\<close> of the folder \<open>second\<close>, which a new instance counts.
\<close>

theorem ignore_rules_leak:
  "fst (getFolderStats ignore_package
          (snd (getFolderStats ignore_package (constructor None None) (js ''first'') two_folders_fs))
          (js ''second'') two_folders_fs) =
     Inr \<lparr>stats_files = 0, stats_directories = 0, totalSize = 0\<rparr> \<and>
   fst (getFolderStats ignore_package (constructor None None) (js ''second'') two_folders_fs) =
     Inr \<lparr>stats_files = 1, stats_directories = 0, totalSize = 2\<rparr> \<and>
   shouldIgnore ignore_package
     (snd (getFolderStats ignore_package
        (snd (getFolderStats ignore_package (constructor None None) (js ''first'') two_folders_fs))
        (js ''second'') two_folders_fs)) (js ''secret.txt'') \<and>
   \<not> shouldIgnore ignore_package
     (snd (getFolderStats ignore_package (constructor None None) (js ''second'') two_folders_fs))
     (js ''secret.txt'')"
  unfolding stats_first stats_second_after_first stats_second_fresh fst_conv snd_conv
  by (simp add: ignore_eval js_def path_eval)

section \<open>Format detection in \<open>textToFolder\<close>\<close>

lemma readTextSync_exists: "readTextSync fs p = Inr s \<Longrightarrow> existsSync fs p"
  by (auto simp: existsSync_def readTextSync_def readFileSync_def split: sum.splits)

lemma unpackLegacySnap_without_markers:
  assumes "readTextSync fs snapFilePath = Inr snapContent"
      and "indexOf snapContent startMarker = - 1 \<or> indexOf snapContent endMarker = - 1"
  shows "unpackLegacySnap pf snapFilePath outputFolder fs = (Inr (failure LegacyMissingMarkers), fs)"
  using assms by (auto simp: unpackLegacySnap_def unpackLegacySnap_try_def catch_def Let_def)

text \<open>
  Claim C10: when the content of the archive fails format detection (it is no JSON, or
  it is JSON that goes to the legacy reader and lacks one of the two markers),
  \<open>textToFolder\<close> returns a failure and leaves the file system as it was.
\<close>

theorem format_failure_leaves_file_system:
  assumes "readTextSync fs snapFilePath = Inr snapContent"
      and "JSON_parse snapContent = None \<or>
           (\<exists>snapData. JSON_parse snapContent = Some snapData \<and>
              get snapData (js ''type'') \<noteq> Inr (Some (JStr (js ''folder-snap-v3''))) \<and>
              (indexOf snapContent startMarker = - 1 \<or> indexOf snapContent endMarker = - 1))"
  shows "\<exists>e. textToFolder pf snapFilePath outputFolder fs = (Inr (failure e), fs)"
proof -
  have ex: "existsSync fs snapFilePath"
    using assms(1) by (rule readTextSync_exists)
  from assms(2) show ?thesis
  proof
    assume "JSON_parse snapContent = None"
    then show ?thesis
      using assms(1) ex by (auto simp: textToFolder_def textToFolder_try_def parsed_def catch_def)
  next
    assume "\<exists>snapData. JSON_parse snapContent = Some snapData \<and>
              get snapData (js ''type'') \<noteq> Inr (Some (JStr (js ''folder-snap-v3''))) \<and>
              (indexOf snapContent startMarker = - 1 \<or> indexOf snapContent endMarker = - 1)"
    then obtain snapData where p: "JSON_parse snapContent = Some snapData"
      and t: "get snapData (js ''type'') \<noteq> Inr (Some (JStr (js ''folder-snap-v3'')))"
      and m: "indexOf snapContent startMarker = - 1 \<or> indexOf snapContent endMarker = - 1"
      by blast
    have "unpackLegacySnap pf snapFilePath outputFolder fs = (Inr (failure LegacyMissingMarkers), fs)"
      using assms(1) m by (rule unpackLegacySnap_without_markers)
    then show ?thesis
      using assms(1) ex p t
      by (cases "get snapData (js ''type'')")
         (auto simp: textToFolder_def textToFolder_try_def parsed_def catch_def)
  qed
qed

lemma garbage_read:
  "readTextSync garbage_fs (js ''bad.snap'') = Inr (js ''not an archive'')"
proof -
  have "list_all (\<lambda>c. c < 128) (js ''not an archive'')" by (simp add: js_def)
  then have "toString_utf8 (Buffer_from_utf8 (js ''not an archive'')) = js ''not an archive''"
    by (rule toString_from_ascii)
  moreover have "readTextSync garbage_fs (js ''bad.snap'') =
      Inr (toString_utf8 (Buffer_from_utf8 (js ''not an archive'')))"
    unfolding garbage_fs_def readTextSync_def readFileSync_def statSync_def resolve_def
    by (simp add: js_def)
  ultimately show ?thesis by simp
qed

lemma garbage_parse: "JSON_parse (js ''not an archive'') = None"
  by (simp add: js_def parse_eval startsWith_def)

lemma flat_read: "readTextSync flat_fs (js ''flat.snap'') = Inr flat_json_text"
proof -
  have "list_all (\<lambda>c. c < 128) flat_json_text" by (simp add: flat_json_text_def js_def)
  then have "toString_utf8 (Buffer_from_utf8 flat_json_text) = flat_json_text"
    by (rule toString_from_ascii)
  moreover have "readTextSync flat_fs (js ''flat.snap'') =
      Inr (toString_utf8 (Buffer_from_utf8 flat_json_text))"
    unfolding flat_fs_def readTextSync_def readFileSync_def statSync_def resolve_def
    by (simp add: js_def)
  ultimately show ?thesis by simp
qed

lemma flat_parse:
  "JSON_parse flat_json_text =
   Some (JObj [(js ''metadata'', JObj [(js ''timestamp'', JStr (js ''T''))]),
               (js ''structure'', JArr [])])"
  by (simp add: flat_json_text_def js_def parse_eval startsWith_def)

lemma flat_markers: "indexOf flat_json_text startMarker = - 1"
  by (simp add: flat_json_text_def startMarker_def indexOf_def js_def startsWith_def)

theorem format_failure_witness:
  "readTextSync garbage_fs (js ''bad.snap'') = Inr (js ''not an archive'') \<and>
   JSON_parse (js ''not an archive'') = None \<and>
   (\<exists>e. textToFolder sample_platform (js ''bad.snap'') (js ''out'') garbage_fs = (Inr (failure e), garbage_fs)) \<and>
   readTextSync flat_fs (js ''flat.snap'') = Inr flat_json_text \<and>
   JSON_parse flat_json_text \<noteq> None \<and>
   indexOf flat_json_text startMarker = - 1 \<and>
   (\<exists>e. textToFolder sample_platform (js ''flat.snap'') (js ''out'') flat_fs = (Inr (failure e), flat_fs))"
proof -
  have a: "\<exists>e. textToFolder sample_platform (js ''bad.snap'') (js ''out'') garbage_fs =
      (Inr (failure e), garbage_fs)"
    using format_failure_leaves_file_system[OF garbage_read, of sample_platform "js ''out''"] garbage_parse
    by blast
  have t: "get (JObj [(js ''metadata'', JObj [(js ''timestamp'', JStr (js ''T''))]),
               (js ''structure'', JArr [])]) (js ''type'') \<noteq> Inr (Some (JStr (js ''folder-snap-v3'')))"
    by (simp add: get_def js_def)
  have b: "\<exists>e. textToFolder sample_platform (js ''flat.snap'') (js ''out'') flat_fs = (Inr (failure e), flat_fs)"
    using format_failure_leaves_file_system[OF flat_read, of sample_platform "js ''out''"] flat_parse flat_markers t
    by blast
  show ?thesis
    using a b garbage_read garbage_parse flat_read flat_parse flat_markers by simp
qed

lemma legacy_ascii: "list_all (\<lambda>c. c < 128) legacy_archive_text"
  by (simp add: legacy_archive_text_def legacy_json_text_def js_def)

lemma legacy_read: "readTextSync legacy_fs (js ''legacy.snap'') = Inr legacy_archive_text"
proof -
  have "toString_utf8 (Buffer_from_utf8 legacy_archive_text) = legacy_archive_text"
    using legacy_ascii by (rule toString_from_ascii)
  moreover have "readTextSync legacy_fs (js ''legacy.snap'') =
      Inr (toString_utf8 (Buffer_from_utf8 legacy_archive_text))"
    unfolding legacy_fs_def readTextSync_def readFileSync_def statSync_def resolve_def
    by (simp add: js_def)
  ultimately show ?thesis by simp
qed

lemma legacy_exists: "existsSync legacy_fs (js ''legacy.snap'')"
  using legacy_read by (rule readTextSync_exists)

lemma legacy_parse: "JSON_parse legacy_archive_text = None"
  by (simp add: legacy_archive_text_def legacy_json_text_def js_def parse_eval startsWith_def)

lemma legacy_start: "indexOf legacy_archive_text startMarker = 79"
  by (simp add: legacy_archive_text_def legacy_json_text_def startMarker_def indexOf_def js_def startsWith_def)

lemma legacy_end: "indexOf legacy_archive_text endMarker = 236"
  by (simp add: legacy_archive_text_def legacy_json_text_def endMarker_def indexOf_def js_def startsWith_def)

lemma legacy_between:
  "trim (substring legacy_archive_text (79 + int (length startMarker)) 236) = legacy_json_text"
  by (simp add: legacy_archive_text_def legacy_json_text_def startMarker_def substring_def
      trim_def js_white_space_def js_def Let_def)

lemma legacy_json_parse:
  "JSON_parse legacy_json_text =
   Some (JObj [(js ''metadata'',
                JObj [(js ''timestamp'', JStr (js ''T'')), (js ''sourceFolder'', JStr (js ''p'')),
                      (js ''totalFiles'', JNum (js ''0'')),
                      (js ''totalDirectories'', JNum (js ''0''))]),
               (js ''structure'', JArr [])])"
  by (simp add: legacy_json_text_def js_def parse_eval startsWith_def)

lemma legacy_unpack:
  "fst (unpackLegacySnap pf (js ''legacy.snap'') (js ''out'') legacy_fs) =
   Inr (restored (js ''out'')
         (Some (JObj [(js ''timestamp'', JStr (js ''T'')), (js ''sourceFolder'', JStr (js ''p'')),
                      (js ''totalFiles'', JNum (js ''0'')),
                      (js ''totalDirectories'', JNum (js ''0''))])))"
proof -
  have nonempty: "legacy_json_text \<noteq> []"
    by (simp add: legacy_json_text_def js_def)
  have restore: "fst (restore_structure (restore_file_embedded pf) (js ''out'')
      (JObj [(js ''metadata'',
                JObj [(js ''timestamp'', JStr (js ''T'')), (js ''sourceFolder'', JStr (js ''p'')),
                      (js ''totalFiles'', JNum (js ''0'')),
                      (js ''totalDirectories'', JNum (js ''0''))]),
               (js ''structure'', JArr [])]) legacy_fs) =
     Inr (Some (JObj [(js ''timestamp'', JStr (js ''T'')), (js ''sourceFolder'', JStr (js ''p'')),
                      (js ''totalFiles'', JNum (js ''0'')),
                      (js ''totalDirectories'', JNum (js ''0''))]))"
    by (simp add: restore_structure_def log_timestamp_def legacy_fs_def get_def js_def
        path_eval fs_eval)
  have missing: "missing_metadata_or_structure
      (JObj [(js ''metadata'',
                JObj [(js ''timestamp'', JStr (js ''T'')), (js ''sourceFolder'', JStr (js ''p'')),
                      (js ''totalFiles'', JNum (js ''0'')),
                      (js ''totalDirectories'', JNum (js ''0''))]),
               (js ''structure'', JArr [])]) = Inr False"
    by (simp add: missing_metadata_or_structure_def get_def js_def)
  show ?thesis
    using restore
    by (simp add: unpackLegacySnap_def unpackLegacySnap_try_def legacy_read legacy_start
        legacy_end legacy_between legacy_json_parse nonempty missing parsed_def catch_def
        case_prod_beta split: sum.splits)
qed

text \<open>
  Claim C2: \<open>textToFolder\<close> parses the file as JSON and, if and only if that fails,
  falls back to the text between the markers; it fails with an invalid-format error only
  when both fail. On the legacy archive of the example, which holds both markers and a
  JSON document between them, \<open>textToFolder\<close> fails with
  \<open>Invalid snap file format\<close> as soon as \<open>JSON.parse\<close> rejects the file, although
  \<open>unpackLegacySnap\<close> restores that same file.
\<close>

theorem legacy_archive_rejected:
  "textToFolder pf (js ''legacy.snap'') (js ''out'') legacy_fs =
     (Inr (failure InvalidSnapFileFormat), legacy_fs) \<and>
   indexOf legacy_archive_text startMarker = 79 \<and>
   indexOf legacy_archive_text endMarker = 236 \<and>
   fst (unpackLegacySnap pf (js ''legacy.snap'') (js ''out'') legacy_fs) =
     Inr (restored (js ''out'')
           (Some (JObj [(js ''timestamp'', JStr (js ''T'')), (js ''sourceFolder'', JStr (js ''p'')),
                        (js ''totalFiles'', JNum (js ''0'')),
                        (js ''totalDirectories'', JNum (js ''0''))])))"
  by (simp add: textToFolder_def textToFolder_try_def legacy_exists legacy_read legacy_parse
      legacy_start legacy_end legacy_unpack parsed_def catch_def)

section \<open>The order of the entries\<close>

lemma slash: "js ''/'' = [47]"
  by (simp add: js_def)

lemma relative_item_split:
  "relative_item rel n = (if rel = [] then [] else rel @ [47]) @ n"
  by (simp add: relative_item_def slash)

lemma below_iff: "below d p \<longleftrightarrow> (\<exists>z. p = d @ 47 # z)"
proof
  assume "below d p"
  then have "take (Suc (length d)) p = d @ [47]"
    by (simp add: below_def startsWith_def slash)
  then have "p = (d @ [47]) @ drop (Suc (length d)) p"
    by (metis append_take_drop_id)
  then show "\<exists>z. p = d @ 47 # z" by auto
next
  assume "\<exists>z. p = d @ 47 # z"
  then show "below d p"
    by (auto simp: below_def startsWith_def slash)
qed

lemma in_child_iff:
  "in_child rel n p \<longleftrightarrow> (\<exists>s. p = relative_item rel n @ s \<and> (s = [] \<or> hd s = 47))"
proof
  assume "in_child rel n p"
  then show "\<exists>s. p = relative_item rel n @ s \<and> (s = [] \<or> hd s = 47)"
    unfolding in_child_def below_iff by (metis append_Nil2 list.sel(1))
next
  assume "\<exists>s. p = relative_item rel n @ s \<and> (s = [] \<or> hd s = 47)"
  then obtain s where p: "p = relative_item rel n @ s" and s: "s = [] \<or> hd s = 47" by blast
  show "in_child rel n p"
  proof (cases s)
    case Nil
    with p show ?thesis by (simp add: in_child_def)
  next
    case (Cons c cs)
    with s p have "p = relative_item rel n @ 47 # cs" by simp
    then show ?thesis unfolding in_child_def below_iff by blast
  qed
qed

lemma takeWhile_name:
  assumes "47 \<notin> set n" and "s = [] \<or> hd s = 47"
  shows "takeWhile (\<lambda>c. c \<noteq> 47) (n @ s) = n"
proof -
  have "takeWhile (\<lambda>c. c \<noteq> 47) s = []"
    using assms(2) by (cases s) auto
  moreover have "\<forall>c\<in>set n. c \<noteq> 47"
    using assms(1) by auto
  ultimately show ?thesis
    by (simp add: takeWhile_append2)
qed

lemma same_child:
  assumes n: "valid_name n" and m: "valid_name m"
      and p: "in_child rel n p" and q: "in_child rel m q" and b: "below q p"
  shows "n = m"
proof -
  define pre where "pre = (if rel = [] then [] else rel @ [47::nat])"
  from p obtain s where ps: "p = pre @ n @ s" and s: "s = [] \<or> hd s = 47"
    unfolding in_child_iff relative_item_split pre_def by auto
  from q obtain t where qt: "q = pre @ m @ t" and t: "t = [] \<or> hd t = 47"
    unfolding in_child_iff relative_item_split pre_def by auto
  from b obtain z where "p = q @ 47 # z"
    unfolding below_iff by blast
  with ps qt have eq: "n @ s = m @ (t @ 47 # z)" by simp
  have "t @ 47 # z = [] \<or> hd (t @ 47 # z) = 47"
    using t by (cases t) auto
  then have "takeWhile (\<lambda>c. c \<noteq> 47) (m @ (t @ 47 # z)) = m"
    using m by (intro takeWhile_name) (auto simp: valid_name_def)
  moreover have "takeWhile (\<lambda>c. c \<noteq> 47) (n @ s) = n"
    using n s by (intro takeWhile_name) (auto simp: valid_name_def)
  ultimately show ?thesis using eq by simp
qed

lemma in_child_nested:
  assumes n: "valid_name n" and p: "in_child (relative_item rel n) m p"
  shows "in_child rel n p" and "length (relative_item rel n) < length p"
proof -
  have ne: "relative_item rel n \<noteq> []"
    using n by (auto simp: relative_item_def valid_name_def)
  from p obtain s where "p = relative_item (relative_item rel n) m @ s"
    unfolding in_child_iff by blast
  then have eq: "p = relative_item rel n @ (47 # m @ s)"
    using ne by (simp add: relative_item_split[of "relative_item rel n"])
  show "in_child rel n p"
    unfolding in_child_iff using eq by (intro exI[of _ "47 # m @ s"]) simp
  have "length p = length (relative_item rel n) + length (47 # m @ s)"
    by (subst eq) (simp only: length_append)
  then show "length (relative_item rel n) < length p"
    by simp
qed

lemma not_below_shorter: "length p \<le> length d \<Longrightarrow> \<not> below d p"
  unfolding below_iff by auto

lemma wf_listing_Cons:
  "wf_listing ((n, c) # items) \<longleftrightarrow>
   valid_name n \<and> n \<notin> fst ` set items \<and> wf_node c \<and> wf_listing items"
  by (auto simp: wf_listing_def)

lemma walk_shape:
  "wf_listing items \<Longrightarrow>
   \<exists>ys. readFolderStructure ignores this rel items structure = structure @ ys \<and>
        sorted_wrt may_precede ys \<and>
        (\<forall>y\<in>set ys. \<exists>n\<in>fst ` set items. in_child rel n (path y))"
proof (induction ignores this rel items "structure" rule: readFolderStructure.induct)
  case (1 ignores this rel "structure")
  then show ?case by simp
next
  case (2 ignores this rel item nd items "structure")
  let ?x = "relative_item rel item"
  from "2.prems" have item: "valid_name item" and fresh: "item \<notin> fst ` set items"
    and nd: "wf_node nd" and rest: "wf_listing items"
    by (simp_all add: wf_listing_Cons)
  show ?case
  proof (cases "shouldIgnore ignores this ?x")
    case True
    from "2.IH"(1)[OF refl True rest] True show ?thesis by auto
  next
    case False
    show ?thesis
    proof (cases nd)
      case (File buf)
      let ?f = "FileItem ?x item (length buf) (Some (length (filter is_file structure))) None None None"
      from "2.IH"(2)[OF refl False File rest] obtain ys where
        eq: "readFolderStructure ignores this rel items (structure @ [?f]) = (structure @ [?f]) @ ys"
        and srt: "sorted_wrt may_precede ys"
        and und: "\<forall>y\<in>set ys. \<exists>n\<in>fst ` set items. in_child rel n (path y)"
        by blast
      have cross: "\<forall>y\<in>set ys. may_precede ?f y"
      proof
        fix y assume "y \<in> set ys"
        with und obtain m where m: "m \<in> fst ` set items" and um: "in_child rel m (path y)" by blast
        have vm: "valid_name m"
          using m rest by (auto simp: wf_listing_def list_all_iff)
        have "\<not> below (path y) ?x"
        proof
          assume "below (path y) ?x"
          with same_child[OF item vm _ um, of ?x] have "item = m"
            by (simp add: in_child_def)
          with m fresh show False by simp
        qed
        then show "may_precede ?f y" by (simp add: may_precede_def)
      qed
      have "sorted_wrt may_precede (?f # ys)"
        using srt cross by simp
      moreover have "\<forall>y\<in>set (?f # ys). \<exists>n\<in>fst ` set ((item, nd) # items). in_child rel n (path y)"
        using und by (auto simp: in_child_def)
      moreover have "readFolderStructure ignores this rel ((item, nd) # items) structure
          = structure @ (?f # ys)"
        using eq False File by simp
      ultimately show ?thesis by blast
    next
      case (Dir sub)
      let ?d = "DirectoryItem ?x item"
      have wsub: "wf_listing sub"
        using nd Dir by (simp add: wf_listing_def)
      from "2.IH"(3)[OF refl False Dir wsub] obtain zs where
        eqs: "readFolderStructure ignores this ?x sub [] = zs"
        and srts: "sorted_wrt may_precede zs"
        and unds: "\<forall>y\<in>set zs. \<exists>n\<in>fst ` set sub. in_child ?x n (path y)"
        by auto
      from "2.IH"(4)[OF refl False Dir rest] eqs obtain ys where
        eq: "readFolderStructure ignores this rel items (structure @ [?d] @ zs)
             = (structure @ [?d] @ zs) @ ys"
        and srt: "sorted_wrt may_precede ys"
        and und: "\<forall>y\<in>set ys. \<exists>n\<in>fst ` set items. in_child rel n (path y)"
        by auto
      have block: "\<forall>x\<in>set (?d # zs). in_child rel item (path x)"
        using unds in_child_nested(1)[OF item] by (auto simp: in_child_def)
      have longer: "\<forall>z\<in>set zs. length ?x < length (path z)"
        using unds in_child_nested(2)[OF item] by blast
      have d_first: "\<forall>z\<in>set zs. may_precede ?d z"
      proof
        fix z assume "z \<in> set zs"
        with longer have "length ?x \<le> length (path z)" by fastforce
        then have "\<not> below (path z) ?x" by (rule not_below_shorter)
        then show "may_precede ?d z" by (simp add: may_precede_def)
      qed
      have cross: "\<forall>x\<in>set (?d # zs). \<forall>y\<in>set ys. may_precede x y"
      proof (intro ballI)
        fix x y assume x: "x \<in> set (?d # zs)" and y: "y \<in> set ys"
        from y und obtain m where m: "m \<in> fst ` set items" and um: "in_child rel m (path y)" by blast
        have vm: "valid_name m"
          using m rest by (auto simp: wf_listing_def list_all_iff)
        have ux: "in_child rel item (path x)" using block x by blast
        have "\<not> below (path y) (path x)"
        proof
          assume "below (path y) (path x)"
          with same_child[OF item vm ux um] have "item = m" by simp
          with m fresh show False by simp
        qed
        then show "may_precede x y" by (simp add: may_precede_def)
      qed
      have "sorted_wrt may_precede ((?d # zs) @ ys)"
        unfolding sorted_wrt_append using srts srt d_first cross by simp
      moreover have "\<forall>y\<in>set ((?d # zs) @ ys). \<exists>n\<in>fst ` set ((item, nd) # items). in_child rel n (path y)"
        using und block by auto
      moreover have "readFolderStructure ignores this rel ((item, nd) # items) structure
          = structure @ ((?d # zs) @ ys)"
        using eq eqs False Dir by simp
      ultimately show ?thesis by blast
    qed
  qed
qed

lemma not_below_self: "\<not> below p p"
  by (rule not_below_shorter) simp

text \<open>
  Claim C4: in the list that \<open>readFolderStructure\<close> returns for a folder, every
  directory entry stands at an earlier position than every entry whose relative path
  has the path of that directory, with the separator, as a prefix. The listing is
  that of a file system: names are distinct within a directory, not empty and free
  of the separator.
\<close>

theorem directory_precedes_descendants:
  assumes "wf_listing items"
      and "structure = readFolderStructure ignores this [] items []"
      and "i < length structure" and "j < length structure"
      and "is_directory (structure ! i)"
      and "startsWith (path (structure ! j)) (path (structure ! i) @ js ''/'')"
  shows "i < j"
proof (rule ccontr)
  assume "\<not> i < j"
  then have ji: "j \<le> i" by simp
  from walk_shape[OF assms(1), of ignores this "[]" "[]"] assms(2)
  have srt: "sorted_wrt may_precede structure" by auto
  have b: "below (path (structure ! i)) (path (structure ! j))"
    using assms(6) by (simp add: below_def)
  show False
  proof (cases "j = i")
    case True
    with b not_below_self show False by simp
  next
    case False
    with ji have "j < i" by simp
    with srt assms(3) have "may_precede (structure ! j) (structure ! i)"
      by (simp add: sorted_wrt_iff_nth_less)
    with assms(5) b show False by (simp add: may_precede_def)
  qed
qed

theorem directory_precedes_descendants_witness:
  "wf_listing project_tree \<and>
   project_walk =
     readFolderStructure ignore_package ((constructor None None)\<lparr>ig := default_ignores\<rparr>) []
       project_tree [] \<and>
   0 < length project_walk \<and> 2 < length project_walk \<and>
   is_directory (project_walk ! 0) \<and>
   startsWith (path (project_walk ! 2)) (path (project_walk ! 0) @ js ''/'') \<and>
   (0::nat) < 2"
proof -
  have wf: "wf_listing project_tree"
    by (simp add: wf_listing_def project_tree_def valid_name_def js_def)
  have len: "0 < length project_walk" "2 < length project_walk"
    by (simp_all add: project_walk_def)
  have dir: "is_directory (project_walk ! 0)"
    by (simp add: project_walk_def)
  have pre: "startsWith (path (project_walk ! 2)) (path (project_walk ! 0) @ js ''/'')"
    by (simp add: project_walk_def startsWith_def js_def)
  from directory_precedes_descendants[OF wf walk_project[symmetric] len dir pre]
  show ?thesis
    using wf walk_project len dir pre by simp
qed

section \<open>The size field of the embedded-content archive\<close>

lemma attach_content_sizes:
  "x \<in> set (attach_content folder fs xs) \<Longrightarrow> is_file x \<Longrightarrow>
   \<exists>y\<in>set xs. is_file y \<and> path y = path x \<and> size_bytes y = size_bytes x"
  by (induction folder fs xs rule: attach_content.induct) (auto split: sum.splits)

lemma strip_v2_sizes:
  "is_file (strip_v2 y) = is_file y \<and> path (strip_v2 y) = path y \<and>
   (is_file y \<longrightarrow> size_bytes (strip_v2 y) = size_bytes y)"
  by (cases y) auto

lemma files_of_append: "files_of rel (xs @ ys) = files_of rel xs @ files_of rel ys"
  by (induction rel xs rule: files_of.induct) auto

lemma walk_sizes:
  "x \<in> set (readFolderStructure ignores this rel items structure) \<Longrightarrow> is_file x \<Longrightarrow>
   x \<in> set structure \<or>
   (\<exists>buf. (path x, buf) \<in> set (files_of rel items) \<and> size_bytes x = length buf)"
proof (induction ignores this rel items "structure" rule: readFolderStructure.induct)
  case (1 ignores this rel "structure")
  then show ?case by simp
next
  case (2 ignores this rel item nd items "structure")
  let ?x = "relative_item rel item"
  show ?case
  proof (cases "shouldIgnore ignores this ?x")
    case True
    with "2.prems" have "x \<in> set (readFolderStructure ignores this rel items structure)"
      by (simp add: Let_def)
    from "2.IH"(1)[OF refl True this "2.prems"(2)] show ?thesis
      by (cases nd) auto
  next
    case False
    show ?thesis
    proof (cases nd)
      case (File buf)
      let ?f = "FileItem ?x item (length buf) (Some (length (filter is_file structure))) None None None"
      from "2.prems" False File
      have "x \<in> set (readFolderStructure ignores this rel items (structure @ [?f]))"
        by (simp add: Let_def)
      from "2.IH"(2)[OF refl False File this "2.prems"(2)] File show ?thesis
        by auto
    next
      case (Dir sub)
      let ?d = "DirectoryItem ?x item"
      let ?zs = "readFolderStructure ignores this ?x sub []"
      from "2.prems" False Dir
      have "x \<in> set (readFolderStructure ignores this rel items (structure @ [?d] @ ?zs))"
        by (simp add: Let_def)
      from "2.IH"(4)[OF refl False Dir this "2.prems"(2)]
      consider "x \<in> set structure" | "x = ?d" | "x \<in> set ?zs"
        | "\<exists>buf. (path x, buf) \<in> set (files_of rel items) \<and> size_bytes x = length buf"
        by auto
      then show ?thesis
      proof cases
        case 1 then show ?thesis by simp
      next
        case 2 with "2.prems"(2) show ?thesis by simp
      next
        case 3
        from "2.IH"(3)[OF refl False Dir 3 "2.prems"(2)] Dir show ?thesis by auto
      next
        case 4 with Dir show ?thesis by auto
      qed
    qed
  qed
qed

lemma structure_v2_sizes:
  assumes "x \<in> set (map strip_v2 (attach_content folder fs'
                 (readFolderStructure ignores this [] items [])))"
      and "is_file x"
  shows "\<exists>buf. (path x, buf) \<in> set (files_of [] items) \<and> size_bytes x = length buf"
proof -
  from assms(1) obtain y where y: "y \<in> set (attach_content folder fs'
        (readFolderStructure ignores this [] items []))" and xy: "x = strip_v2 y"
    by auto
  from assms(2) xy strip_v2_sizes[of y] have fy: "is_file y" and py: "path x = path y"
    and sy: "size_bytes x = size_bytes y" by auto
  from attach_content_sizes[OF y fy] obtain w where
    w: "w \<in> set (readFolderStructure ignores this [] items [])" and fw: "is_file w"
    and pw: "path w = path y" and sw: "size_bytes w = size_bytes y"
    by blast
  from walk_sizes[OF w fw] obtain buf where
    "(path w, buf) \<in> set (files_of [] items)" "size_bytes w = length buf"
    by auto
  then show ?thesis using py pw sy sw by auto
qed

lemma map_of_put_child: "map_of (put_child k v cs) k' = (if k' = k then Some v else map_of cs k')"
  by (induction k v cs rule: put_child.induct) auto

lemma lookup_written: "write_at l d n = Inr n' \<Longrightarrow> lookup l n' = Some (File d)"
proof (induction l d n arbitrary: n' rule: write_at.induct)
  case (1 d n)
  then show ?case by simp
next
  case (2 s ss d b)
  then show ?case by simp
next
  case (3 s ss d cs)
  show ?case
  proof (cases "ss = []")
    case True
    with "3.prems" show ?thesis
      by (auto simp: map_of_put_child split: option.splits node.splits)
  next
    case False
    with "3.prems" obtain c c' where c: "map_of cs s = Some c"
      and w: "write_at ss d c = Inr c'" and n': "n' = Dir (put_child s c' cs)"
      by (auto split: option.splits sum.splits)
    from "3.IH"[OF False c w] have "lookup ss c' = Some (File d)" .
    with n' False show ?thesis
      by (cases ss) (auto simp: map_of_put_child)
  qed
qed

text \<open>Writing a file leaves every directory a directory, and does not replace one.\<close>

lemma write_at_keeps_directories:
  "write_at l d n = Inr n' \<Longrightarrow> lookup l' n = Some (Dir ds) \<Longrightarrow> \<exists>ds'. lookup l' n' = Some (Dir ds')"
proof (induction l d n arbitrary: n' l' ds rule: write_at.induct)
  case (1 d n)
  then show ?case by simp
next
  case (2 s ss d b)
  then show ?case by simp
next
  case (3 s ss d cs)
  show ?case
  proof (cases l')
    case Nil
    with "3.prems" show ?thesis by (auto split: if_splits option.splits node.splits sum.splits)
  next
    case (Cons s' ss')
    show ?thesis
    proof (cases "s' = s")
      case False
      with Cons "3.prems" show ?thesis
        by (auto simp: map_of_put_child split: if_splits option.splits node.splits sum.splits)
    next
      case True
      show ?thesis
      proof (cases "ss = []")
        case e: True
        with "3.prems" Cons True show ?thesis
          by (cases ss') (auto simp: map_of_put_child split: option.splits node.splits)
      next
        case ne: False
        with "3.prems"(1) obtain c c' where c: "map_of cs s = Some c"
          and w: "write_at ss d c = Inr c'" and n': "n' = Dir (put_child s c' cs)"
          by (auto split: option.splits sum.splits)
        from "3.prems"(2) Cons True c have "lookup ss' c = Some (Dir ds)" by simp
        from "3.IH"[OF ne c w this] obtain ds' where "lookup ss' c' = Some (Dir ds')" by blast
        with n' Cons True show ?thesis by (simp add: map_of_put_child)
      qed
    qed
  qed
qed

lemma write_at_no_directory: "write_at l d n = Inr n' \<Longrightarrow> lookup l n \<noteq> Some (Dir ds)"
proof (induction l d n arbitrary: n' ds rule: write_at.induct)
  case (1 d n)
  then show ?case by simp
next
  case (2 s ss d b)
  then show ?case by simp
next
  case (3 s ss d cs)
  show ?case
  proof (cases "ss = []")
    case True
    with "3.prems" show ?thesis by (auto split: option.splits node.splits)
  next
    case False
    with "3.prems"(1) obtain c c' where c: "map_of cs s = Some c"
      and w: "write_at ss d c = Inr c'"
      by (auto split: option.splits sum.splits)
    from "3.IH"[OF False c w] c show ?thesis by simp
  qed
qed

lemma walk_path_after_write:
  assumes "\<And>l' ds. lookup l' fs = Some (Dir ds) \<Longrightarrow> \<exists>ds'. lookup l' fs' = Some (Dir ds')"
  shows "walk_path fs cur segs = Inr l \<Longrightarrow> walk_path fs' cur segs = Inr l"
proof (induction segs arbitrary: cur)
  case Nil
  then show ?case by simp
next
  case (Cons s ss)
  show ?case
  proof (cases "s = []")
    case True
    with Cons show ?thesis by simp
  next
    case False
    with Cons.prems obtain ds where d: "lookup cur fs = Some (Dir ds)"
      by (auto split: option.splits node.splits)
    from assms[OF d] obtain ds' where d': "lookup cur fs' = Some (Dir ds')" by blast
    from Cons.prems False d have
      "walk_path fs (if s = js ''.'' then cur else if s = js ''..'' then butlast cur else cur @ [s]) ss
        = Inr l"
      by (simp split: if_splits)
    from Cons.IH[OF this] False d' show ?thesis by (simp split: if_splits)
  qed
qed

lemma read_written_bytes:
  assumes "writeFileSync p d fs = Inr fs'"
  shows "readFileSync fs' p = Inr d"
proof -
  from assms obtain l where r: "resolve fs p = Inr l" and w: "write_at l d fs = Inr fs'"
    by (auto simp: writeFileSync_def split: sum.splits)
  from r have ne: "p \<noteq> []" and wp: "walk_path fs [] (split_at 47 p) = Inr l"
    by (auto simp: resolve_def split: if_splits sum.splits option.splits node.splits)
  have nodir: "\<And>ds. lookup l fs \<noteq> Some (Dir ds)"
    using w by (rule write_at_no_directory)
  with r ne have last: "last p \<noteq> 47"
    by (auto simp: resolve_def split: if_splits sum.splits option.splits node.splits)
  have "walk_path fs' [] (split_at 47 p) = Inr l"
    using write_at_keeps_directories[OF w] wp by (rule walk_path_after_write)
  with ne last have "resolve fs' p = Inr l" by (simp add: resolve_def)
  with lookup_written[OF w] show ?thesis
    by (simp add: readFileSync_def statSync_def)
qed

lemma read_written: "writeTextSync p s fs = Inr fs' \<Longrightarrow> readFileSync fs' p = Inr (Buffer_from_utf8 s)"
  by (simp add: writeTextSync_def read_written_bytes)

text \<open>
  Claim C9: in an archive of the v2 writer the \<open>size\<close> of every file entry is the
  byte count of the source file as the walk saw it, whatever the encoding of the
  content. When \<open>folderToText\<close> of that version succeeds, the output file holds the
  serialised structure, and every file entry \<open>x\<close> of that structure has as its size
  (in the item and in its JSON member \<open>size\<close>) the length of the file that the
  listed folder holds at the relative path of \<open>x\<close>; the fields \<open>content\<close> and
  \<open>encoding\<close> play no part.
\<close>

theorem size_is_source_byte_count:
  assumes "folderToText_v2_try ignores now this folderPath outputPath fs = (Inr metadata, this', fs')"
  shows "\<exists>items structure.
           readdirSync fs folderPath = Inr items \<and>
           readFileSync fs' outputPath =
             Inr (Buffer_from_utf8 (JSON_stringify (snapData_json metadata structure))) \<and>
           (\<forall>x\<in>set structure. is_file x \<longrightarrow>
              (\<exists>buf. (path x, buf) \<in> set (files_of [] items) \<and>
                     size_bytes x = length buf \<and>
                     map_of (case item_json x of JObj ms \<Rightarrow> ms | _ \<Rightarrow> []) (js ''size'') =
                       Some (JNum (show_nat (length buf)))))"
proof -
  from assms obtain u this1 items fs1 where
    load: "loadGitignore_v2 this folderPath fs = (Inr u, this1)"
    and items: "readdirSync fs folderPath = Inr items"
    and written: "writeTextSync outputPath
        (JSON_stringify (snapData_json (snap_metadata now folderPath
             (readFolderStructure ignores this1 [] items []))
           (map strip_v2 (attach_content folderPath fs1
             (readFolderStructure ignores this1 [] items []))))) fs1 = Inr fs'"
    and meta: "metadata = snap_metadata now folderPath (readFolderStructure ignores this1 [] items [])"
    by (auto simp: folderToText_v2_try_def Let_def split: if_splits prod.splits sum.splits)
  let ?structure = "map strip_v2 (attach_content folderPath fs1
             (readFolderStructure ignores this1 [] items []))"
  have "readFileSync fs' outputPath =
      Inr (Buffer_from_utf8 (JSON_stringify (snapData_json metadata ?structure)))"
    using read_written[OF written] meta by simp
  moreover have "\<forall>x\<in>set ?structure. is_file x \<longrightarrow>
              (\<exists>buf. (path x, buf) \<in> set (files_of [] items) \<and>
                     size_bytes x = length buf \<and>
                     map_of (case item_json x of JObj ms \<Rightarrow> ms | _ \<Rightarrow> []) (js ''size'') =
                       Some (JNum (show_nat (length buf))))"
  proof (intro ballI impI)
    fix x assume x: "x \<in> set ?structure" and f: "is_file x"
    from structure_v2_sizes[OF x f] obtain buf where
      b: "(path x, buf) \<in> set (files_of [] items)" "size_bytes x = length buf" by blast
    from f b(2) have "map_of (case item_json x of JObj ms \<Rightarrow> ms | _ \<Rightarrow> []) (js ''size'') =
                       Some (JNum (show_nat (length buf)))"
      by (cases x) (auto simp: js_def)
    with b show "\<exists>buf. (path x, buf) \<in> set (files_of [] items) \<and>
                     size_bytes x = length buf \<and>
                     map_of (case item_json x of JObj ms \<Rightarrow> ms | _ \<Rightarrow> []) (js ''size'') =
                       Some (JNum (show_nat (length buf)))" by blast
  qed
  ultimately show ?thesis using items by blast
qed

lemma loadGitignore_v2_project:
  "loadGitignore_v2 (constructor None None) (js ''proj'') project_fs =
     (Inr (), (constructor None None)\<lparr>ig := default_ignores_v2\<rparr>)"
  by (simp add: loadGitignore_v2_def project_fs_def project_tree_def constructor_def js_def
      path_eval fs_eval)

lemma walk_project_v2:
  "readFolderStructure ignore_package ((constructor None None)\<lparr>ig := default_ignores_v2\<rparr>) []
     project_tree [] = project_walk"
  by (simp add: project_tree_def ignore_eval default_ignores_v2_def js_def path_eval
      project_walk_def)

lemma project_output_dir: "existsSync project_fs (dirname (js ''out.snap''))"
  by (simp add: project_fs_def js_def path_eval fs_eval)

lemma project_write_v2:
  "writeTextSync (js ''out.snap'') text project_fs =
   Inr (Dir [(js ''proj'', Dir project_tree), (js ''out.snap'', File (Buffer_from_utf8 text))])"
  by (simp add: project_fs_def js_def path_eval fs_eval)

lemma pack_v2_project:
  "fst (folderToText_v2_try ignore_package (js ''T'') (constructor None None) (js ''proj'')
          (js ''out.snap'') project_fs) =
   Inr (snap_metadata (js ''T'') (js ''proj'') project_walk)"
  by (simp add: folderToText_v2_try_def project_exists project_isDirectory
      loadGitignore_v2_project project_readdir walk_project_v2 project_output_dir
      project_write_v2 Let_def)

theorem size_is_source_byte_count_witness:
  "fst (folderToText_v2_try ignore_package (js ''T'') (constructor None None) (js ''proj'')
          (js ''out.snap'') project_fs) =
     Inr (snap_metadata (js ''T'') (js ''proj'') project_walk) \<and>
   (\<exists>items structure.
      readdirSync project_fs (js ''proj'') = Inr items \<and>
      readFileSync
        (snd (snd (folderToText_v2_try ignore_package (js ''T'') (constructor None None)
                     (js ''proj'') (js ''out.snap'') project_fs)))
        (js ''out.snap'') =
        Inr (Buffer_from_utf8 (JSON_stringify
              (snapData_json (snap_metadata (js ''T'') (js ''proj'') project_walk) structure))) \<and>
      (\<forall>x\<in>set structure. is_file x \<longrightarrow>
         (\<exists>buf. (path x, buf) \<in> set (files_of [] items) \<and>
                size_bytes x = length buf \<and>
                map_of (case item_json x of JObj ms \<Rightarrow> ms | _ \<Rightarrow> []) (js ''size'') =
                  Some (JNum (show_nat (length buf))))))"
proof -
  let ?r = "folderToText_v2_try ignore_package (js ''T'') (constructor None None) (js ''proj'')
          (js ''out.snap'') project_fs"
  have "?r = (Inr (snap_metadata (js ''T'') (js ''proj'') project_walk), fst (snd ?r), snd (snd ?r))"
    using pack_v2_project by (metis prod.collapse)
  from size_is_source_byte_count[OF this] pack_v2_project show ?thesis
    by blast
qed

end
